theory Spec2Isabelle
  imports Complex_Main
begin

section \<open>Python floats and exceptions\<close>

text \<open>
  A cell of a numpy float array is a finite number, an infinity or not-a-number.
  A finite float is modelled by the real number it denotes, so comparisons are exact;
  the rounding of \<open>+\<close>, \<open>-\<close> and \<open>%\<close> is not modelled.
  Every comparison with NaN is false, as in IEEE 754.
\<close>

datatype pyfloat = NaN | NegInf | Fin real | PosInf

fun f_le :: "pyfloat \<Rightarrow> pyfloat \<Rightarrow> bool" where
  "f_le NaN _ = False"
| "f_le _ NaN = False"
| "f_le NegInf _ = True"
| "f_le _ PosInf = True"
| "f_le (Fin x) (Fin y) = (x \<le> y)"
| "f_le _ _ = False"

definition f_ge :: "pyfloat \<Rightarrow> pyfloat \<Rightarrow> bool" where
  "f_ge a b = f_le b a"

definition f_lt :: "pyfloat \<Rightarrow> pyfloat \<Rightarrow> bool" where
  "f_lt a b = (f_le a b \<and> \<not> f_le b a)"

definition f_gt :: "pyfloat \<Rightarrow> pyfloat \<Rightarrow> bool" where
  "f_gt a b = f_lt b a"

fun f_neg :: "pyfloat \<Rightarrow> pyfloat" where
  "f_neg NaN = NaN"
| "f_neg NegInf = PosInf"
| "f_neg (Fin x) = Fin (- x)"
| "f_neg PosInf = NegInf"

fun f_add :: "pyfloat \<Rightarrow> pyfloat \<Rightarrow> pyfloat" where
  "f_add NaN _ = NaN"
| "f_add _ NaN = NaN"
| "f_add (Fin x) (Fin y) = Fin (x + y)"
| "f_add PosInf NegInf = NaN"
| "f_add NegInf PosInf = NaN"
| "f_add PosInf _ = PosInf"
| "f_add _ PosInf = PosInf"
| "f_add NegInf _ = NegInf"
| "f_add _ NegInf = NegInf"

definition f_sub :: "pyfloat \<Rightarrow> pyfloat \<Rightarrow> pyfloat" where
  "f_sub a b = f_add a (f_neg b)"

text \<open>\<^verbatim>\<open>x % 360\<close> on floats: the result has the sign of the divisor; an infinity or
  NaN gives NaN.\<close>

definition f_mod360 :: "pyfloat \<Rightarrow> pyfloat" where
  "f_mod360 x = (case x of Fin r \<Rightarrow> Fin (r - 360 * of_int \<lfloor>r / 360\<rfloor>) | _ \<Rightarrow> NaN)"

definition isfinite :: "pyfloat \<Rightarrow> bool" where
  "isfinite x = (case x of Fin _ \<Rightarrow> True | _ \<Rightarrow> False)"

text \<open>The exceptions the pipelines meet; all are subclasses of \<^verbatim>\<open>Exception\<close>.
  \<open>LibraryError\<close> stands for whatever a collaborator (decoder, plotting library) raises.\<close>

datatype py_exn =
    ValueError string
  | IndexError
  | KeyError string
  | FileNotFoundError string
  | LibraryError string

definition try_bind :: "py_exn + 'a \<Rightarrow> ('a \<Rightarrow> py_exn + 'b) \<Rightarrow> py_exn + 'b" where
  "try_bind m f = (case m of Inl e \<Rightarrow> Inl e | Inr x \<Rightarrow> f x)"

section \<open>numpy arrays\<close>

text \<open>An array is its shape and its cells in row-major order; an array of numpy has
  \<open>length (flat a) = prod_list (shape a)\<close>.\<close>

datatype 'a ndarray = NDArray (shape: "nat list") (flat: "'a list")

definition well_shaped :: "'a ndarray \<Rightarrow> bool" where
  "well_shaped a = (length (flat a) = prod_list (shape a))"

definition ndim :: "'a ndarray \<Rightarrow> nat" where
  "ndim a = length (shape a)"

definition nd_size :: "'a ndarray \<Rightarrow> nat" where
  "nd_size a = prod_list (shape a)"

definition nd_map :: "('a \<Rightarrow> 'b) \<Rightarrow> 'a ndarray \<Rightarrow> 'b ndarray" where
  "nd_map f a = NDArray (shape a) (map f (flat a))"

definition chunks :: "nat \<Rightarrow> nat \<Rightarrow> 'a list \<Rightarrow> 'a list list" where
  "chunks n k xs = map (\<lambda>i. take k (drop (i * k) xs)) [0..<n]"

definition select :: "'a list \<Rightarrow> bool list \<Rightarrow> 'a list" where
  "select xs m = map fst (filter snd (zip xs m))"

definition count_true :: "bool list \<Rightarrow> nat" where
  "count_true m = length (filter id m)"

definition nonzero :: "bool list \<Rightarrow> nat list" where
  "nonzero m = filter (\<lambda>i. m ! i) [0..<length m]"

text \<open>\<^verbatim>\<open>a[i]\<close> with an integer: a negative index counts from the end, an index out of
  range raises.\<close>

definition index0 :: "'a ndarray \<Rightarrow> int \<Rightarrow> py_exn + 'a ndarray" where
  "index0 a i =
     (case shape a of
        [] \<Rightarrow> Inl IndexError
      | n # rest \<Rightarrow>
          (let j = (if i < 0 then int n + i else i) in
           if 0 \<le> j \<and> j < int n
           then Inr (NDArray rest (take (prod_list rest) (drop (nat j * prod_list rest) (flat a))))
           else Inl IndexError))"

text \<open>\<^verbatim>\<open>a[m]\<close> (\<open>ax = 0\<close>) and \<^verbatim>\<open>a[:, m]\<close> (\<open>ax = 1\<close>) with a boolean array \<open>m\<close>:
  the mask must have the extent of the axes it indexes, which collapse into one axis
  holding the selected entries.\<close>

definition bool_index_from :: "nat \<Rightarrow> bool ndarray \<Rightarrow> 'a ndarray \<Rightarrow> py_exn + 'a ndarray" where
  "bool_index_from ax m a =
     (if ndim a < ax + ndim m then Inl IndexError
      else if take (ndim m) (drop ax (shape a)) \<noteq> shape m then Inl IndexError
      else
        (let outer = prod_list (take ax (shape a));
             nb = prod_list (shape m);
             k = prod_list (drop (ax + ndim m) (shape a))
         in Inr (NDArray (take ax (shape a) @ [count_true (flat m)] @ drop (ax + ndim m) (shape a))
                  (concat (map (\<lambda>blk. concat (select (chunks nb k blk) (flat m)))
                               (chunks outer (nb * k) (flat a)))))))"

text \<open>\<^verbatim>\<open>a[np.ix_(rm, cm)]\<close> with two 1-D boolean masks: \<^verbatim>\<open>np.ix_\<close> turns each mask
  into the indices of its true entries, and the array is indexed by their cross product
  along its first two axes. Only the indices have to be in range.\<close>

definition ix_index :: "bool list \<Rightarrow> bool list \<Rightarrow> 'a ndarray \<Rightarrow> py_exn + 'a ndarray" where
  "ix_index rm cm a =
     (case shape a of
        n0 # n1 # rest \<Rightarrow>
          (let ri = nonzero rm; ci = nonzero cm; k = prod_list rest in
           if list_all (\<lambda>i. i < n0) ri \<and> list_all (\<lambda>j. j < n1) ci
           then Inr (NDArray (length ri # length ci # rest)
                  (concat (map (\<lambda>i. concat (map (\<lambda>j. take k (drop ((i * n1 + j) * k) (flat a))) ci)) ri)))
           else Inl IndexError)
      | _ \<Rightarrow> Inl IndexError)"

text \<open>\<^verbatim>\<open>np.meshgrid(x, y)\<close>: both results have shape \<open>(size y, size x)\<close>.\<close>

definition meshgrid :: "'a ndarray \<Rightarrow> 'a ndarray \<Rightarrow> 'a ndarray \<times> 'a ndarray" where
  "meshgrid x y =
     (let nx = length (flat x); ny = length (flat y) in
      (NDArray [ny, nx] (concat (replicate ny (flat x))),
       NDArray [ny, nx] (concat (map (replicate nx) (flat y)))))"

definition linspace :: "real \<Rightarrow> real \<Rightarrow> nat \<Rightarrow> pyfloat ndarray" where
  "linspace a b n =
     NDArray [n] (if n = 1 then [Fin a]
                  else map (\<lambda>i. Fin (a + real i * ((b - a) / real (n - 1)))) [0..<n])"

text \<open>\<^verbatim>\<open>(arr >= lo) & (arr <= hi)\<close>, cell by cell.\<close>

definition in_window :: "pyfloat \<Rightarrow> pyfloat \<Rightarrow> pyfloat \<Rightarrow> bool" where
  "in_window lo hi x = (f_ge x lo \<and> f_le x hi)"

section \<open>The colour tables\<close>

text \<open>\<^verbatim>\<open>create_radar_colormap\<close> (generic path): the colours, the boundaries and the
  number of colours handed to \<^verbatim>\<open>BoundaryNorm\<close>.\<close>

definition radar_colors :: "string list" where
  "radar_colors =
     [''#00FFFF'', ''#00BFFF'', ''#0000FF'', ''#00FF00'', ''#00C800'', ''#009600'',
      ''#FFFF00'', ''#FFD700'', ''#FFA500'', ''#FF4500'', ''#FF0000'', ''#C80000'',
      ''#A00000'', ''#FF00FF'', ''#9932CC'', ''#FFFFFF'']"

definition radar_bounds :: "int list" where
  "radar_bounds = [-30, -20, -10, 0, 10, 20, 25, 30, 35, 40, 45, 50, 55, 60, 65, 70, 80]"

definition create_radar_colormap :: "string list \<times> int list \<times> nat" where
  "create_radar_colormap = (radar_colors, radar_bounds, length radar_colors)"

text \<open>\<^verbatim>\<open>nexrad_colormap\<close> (MRMS path): \<^verbatim>\<open>cmap\<close>, the norm (boundaries and \<^verbatim>\<open>cmap.N\<close>)
  and the boundaries again.\<close>

definition nexrad_colors :: "string list" where
  "nexrad_colors =
     [''#646464'', ''#04e9e7'', ''#019ff4'', ''#0300f4'', ''#02fd02'', ''#01c501'',
      ''#008e00'', ''#fdf802'', ''#e5bc00'', ''#fd9500'', ''#fd0000'', ''#d40000'',
      ''#bc0000'', ''#f800fd'', ''#9854c6'', ''#fdfdfd'']"

definition nexrad_bounds :: "int list" where
  "nexrad_bounds = [-5, 0, 5, 10, 15, 20, 25, 30, 35, 40, 45, 50, 55, 60, 65, 70, 80]"

definition nexrad_colormap :: "string list \<times> (int list \<times> nat) \<times> int list" where
  "nexrad_colormap = (nexrad_colors, (nexrad_bounds, length nexrad_colors), nexrad_bounds)"

section \<open>The generic GRIB pipeline (\<^verbatim>\<open>grib_processor.py\<close>)\<close>

text \<open>A decoded dataset: its variables in order (\<^verbatim>\<open>ds.variables\<close>, name and cells), the
  names among them that are coordinates (\<^verbatim>\<open>ds.coords\<close>) and the value of the time
  coordinate.\<close>

datatype dataset =
  Dataset (variables: "(string \<times> pyfloat ndarray) list") (coords: "string list") (time_of: string)

type_synonym masked = "(pyfloat \<times> bool) ndarray"

type_synonym bounds = "pyfloat \<times> pyfloat"

datatype draw_cmd =
    Pcolormesh "pyfloat ndarray" "pyfloat ndarray" masked
  | SetXlim bounds
  | SetYlim bounds

text \<open>The file system as far as the pipelines touch it: the paths that exist, and for
  every image written what had been drawn on it.\<close>

record world =
  files :: "string set"
  images :: "(string \<times> draw_cmd list) list"

text \<open>The lines the two pipelines print, by what they show. The text of a line is fixed by
  its arguments; whether writing it to the standard output raises is for the collaborators
  to say.\<close>

datatype message =
    Opening string
  | UsingVariable string
  | DataShape "nat list"
  | DataRange "pyfloat ndarray"
  | RadarSaved string
  | ErrorProcessing py_exn
  | Processing string
  | LoadedPygrib "nat list"
  | ValidDate string
  | ReflectivityRange "pyfloat ndarray"
  | PygribUnavailable
  | LoadedXarray "nat list"
  | GridLonRange pyfloat pyfloat
  | CroppedTo "nat list" pyfloat
  | Rendering pyfloat pyfloat pyfloat
  | MapSaved string
  | Complete
  | Usage

text \<open>The collaborators that are not part of the repository: gzip, the GRIB decoders,
  the plotting libraries, the standard output and the parser of \<^verbatim>\<open>float()\<close>. Each is
  a parameter; a call that can raise returns a sum. \<open>savefig\<close> returns the path of the
  file it wrote, which the library derives from the path it is given.\<close>

record externals =
  can_create :: "string \<Rightarrow> bool"
  valid_gzip :: "string \<Rightarrow> bool"
  open_dataset :: "string \<Rightarrow> bool \<Rightarrow> py_exn + dataset"
  pcolormesh :: "pyfloat ndarray \<Rightarrow> pyfloat ndarray \<Rightarrow> masked \<Rightarrow> py_exn + unit"
  colorbar :: "draw_cmd list \<Rightarrow> py_exn + unit"
  savefig :: "string \<Rightarrow> draw_cmd list \<Rightarrow> py_exn + string"
  print_out :: "message \<Rightarrow> py_exn + unit"
  print_exc :: "py_exn \<Rightarrow> py_exn + unit"
  pygrib_available :: bool
  pygrib_open :: "string \<Rightarrow> py_exn + (pyfloat ndarray \<times> pyfloat ndarray \<times> pyfloat ndarray \<times> string)"
  astype_float32 :: "pyfloat \<Rightarrow> pyfloat"
  geo_axes :: "pyfloat \<Rightarrow> pyfloat \<Rightarrow> pyfloat \<Rightarrow> py_exn + unit"
  py_float :: "string \<Rightarrow> py_exn + pyfloat"

subsection \<open>Decompression (lines 61-69) and cleanup (lines 183-184)\<close>

definition endswith :: "string \<Rightarrow> string \<Rightarrow> bool" where
  "endswith s suf = (length suf \<le> length s \<and> drop (length s - length suf) s = suf)"

text \<open>\<^verbatim>\<open>input_path.replace('.gz', '')\<close>: every occurrence is removed, left to right.\<close>

function remove_gz :: "string \<Rightarrow> string" where
  "remove_gz s =
     (if s = [] then []
      else if take 3 s = ''.gz'' then remove_gz (drop 3 s)
      else hd s # remove_gz (tl s))"
  by pat_completeness auto
termination
  by (relation "measure length") auto

declare remove_gz.simps [simp del]

text \<open>\<^verbatim>\<open>gzip.open\<close> opens the input (it must exist), \<^verbatim>\<open>open(temp_file, 'wb')\<close> creates the
  sibling file, \<^verbatim>\<open>copyfileobj\<close> decodes the stream and raises on a bad one, the sibling
  file then being there already.\<close>

definition decompress :: "externals \<Rightarrow> world \<Rightarrow> string \<Rightarrow> world \<times> (py_exn + (string option \<times> string))" where
  "decompress env w input_path =
     (if endswith input_path ''.gz'' then
        (let temp_file = remove_gz input_path in
         if input_path \<notin> files w then (w, Inl (FileNotFoundError input_path))
         else if temp_file = [] \<or> \<not> can_create env temp_file then (w, Inl (FileNotFoundError temp_file))
         else
           (let w1 = w\<lparr>files := insert temp_file (files w)\<rparr> in
            if valid_gzip env input_path then (w1, Inr (Some temp_file, temp_file))
            else (w1, Inl (LibraryError ''BadGzipFile''))))
      else (w, Inr (None, input_path)))"

definition cleanup :: "world \<Rightarrow> string option \<Rightarrow> world" where
  "cleanup w temp_file =
     (case temp_file of
        None \<Rightarrow> w
      | Some t \<Rightarrow> if t \<noteq> [] \<and> t \<in> files w then w\<lparr>files := files w - {t}\<rparr> else w)"

subsection \<open>Decoding and variable resolution (lines 75-99)\<close>

definition open_with_fallback :: "externals \<Rightarrow> string \<Rightarrow> py_exn + dataset" where
  "open_with_fallback env grib_file =
     (case open_dataset env grib_file False of
        Inr ds \<Rightarrow> Inr ds
      | Inl _ \<Rightarrow> open_dataset env grib_file True)"

definition priority_names :: "string list" where
  "priority_names = [''unknown'', ''refc'', ''REFC'', ''reflectivity'', ''dBZ'', ''Reflectivity'']"

definition coord_vars :: "string set" where
  "coord_vars = {''latitude'', ''longitude'', ''lat'', ''lon'', ''x'', ''y'', ''time''}"

text \<open>\<^verbatim>\<open>str\<close> of a list of names, as the f-string of the error message prints it.\<close>

fun join_comma :: "string list \<Rightarrow> string" where
  "join_comma [] = []"
| "join_comma [x] = x"
| "join_comma (x # y # ys) = x @ '', '' @ join_comma (y # ys)"

definition str_list :: "string list \<Rightarrow> string" where
  "str_list names = ''['' @ join_comma (map (\<lambda>s. [CHR 0x27] @ s @ [CHR 0x27]) names) @ '']''"

definition find_variable :: "string list \<Rightarrow> py_exn + string" where
  "find_variable names =
     (case find (\<lambda>name. name \<in> set names) priority_names of
        Some var_name \<Rightarrow> Inr var_name
      | None \<Rightarrow>
          (case filter (\<lambda>v. v \<notin> coord_vars) names of
             v # _ \<Rightarrow> Inr v
           | [] \<Rightarrow> Inl (ValueError (''No data variable found. Variables: '' @ str_list names))))"

definition get_var :: "dataset \<Rightarrow> string \<Rightarrow> py_exn + pyfloat ndarray" where
  "get_var ds name =
     (case map_of (variables ds) name of None \<Rightarrow> Inl (KeyError name) | Some a \<Rightarrow> Inr a)"

subsection \<open>Coordinates (lines 102-111) and the time dimension (lines 117-118)\<close>

text \<open>\<^verbatim>\<open>shape[-k]\<close>.\<close>

definition shape_from_end :: "nat list \<Rightarrow> nat \<Rightarrow> py_exn + nat" where
  "shape_from_end s k = (if 1 \<le> k \<and> k \<le> length s then Inr (s ! (length s - k)) else Inl IndexError)"

definition get_coordinates :: "dataset \<Rightarrow> pyfloat ndarray \<Rightarrow> py_exn + (pyfloat ndarray \<times> pyfloat ndarray)" where
  "get_coordinates ds data =
     (let names = map fst (variables ds) in
      if ''latitude'' \<in> set names \<and> ''longitude'' \<in> set names then
        try_bind (get_var ds ''latitude'') (\<lambda>lat.
        try_bind (get_var ds ''longitude'') (\<lambda>lon. Inr (lat, lon)))
      else if ''lat'' \<in> set names \<and> ''lon'' \<in> set names then
        try_bind (get_var ds ''lat'') (\<lambda>lat.
        try_bind (get_var ds ''lon'') (\<lambda>lon. Inr (lat, lon)))
      else
        try_bind (shape_from_end (shape data) 2) (\<lambda>ny.
        try_bind (shape_from_end (shape data) 1) (\<lambda>nx.
          Inr (linspace 20 55 ny, linspace (-130) (-60) nx))))"

definition collapse_time :: "'a ndarray \<Rightarrow> py_exn + 'a ndarray" where
  "collapse_time refl_data =
     (if length (shape refl_data) > 2
      then (if shape refl_data ! 0 = 1 then index0 refl_data 0 else index0 refl_data (-1))
      else Inr refl_data)"

text \<open>\<^verbatim>\<open>np.nanmin\<close> and \<^verbatim>\<open>np.nanmax\<close> in the report of the data range raise on an array
  without cells.\<close>

definition nan_range :: "pyfloat ndarray \<Rightarrow> py_exn + unit" where
  "nan_range a =
     (if nd_size a = 0
      then Inl (ValueError ''zero-size array to reduction operation fmin which has no identity'')
      else Inr ())"

subsection \<open>Masking (lines 124-125)\<close>

definition masked_invalid :: "pyfloat ndarray \<Rightarrow> masked" where
  "masked_invalid a = nd_map (\<lambda>x. (x, \<not> isfinite x)) a"

definition masked_less :: "masked \<Rightarrow> pyfloat \<Rightarrow> masked" where
  "masked_less a v = nd_map (\<lambda>(x, m). (x, m \<or> f_lt x v)) a"

text \<open>Lines 75-125: decoding, the variable, the coordinates, the time dimension and the
  masks, with the lines printed on the way (lines 98, 120 and 121).\<close>

definition prepare :: "externals \<Rightarrow> string \<Rightarrow> py_exn + (masked \<times> pyfloat ndarray \<times> pyfloat ndarray)" where
  "prepare env grib_file =
     try_bind (open_with_fallback env grib_file) (\<lambda>ds.
     try_bind (find_variable (map fst (variables ds))) (\<lambda>var_name.
     try_bind (print_out env (UsingVariable var_name)) (\<lambda>_.
     try_bind (get_var ds var_name) (\<lambda>data.
     try_bind (get_coordinates ds data) (\<lambda>(lat, lon).
     try_bind (collapse_time data) (\<lambda>refl_data.
     try_bind (print_out env (DataShape (shape refl_data))) (\<lambda>_.
     try_bind (nan_range refl_data) (\<lambda>_.
     try_bind (print_out env (DataRange refl_data)) (\<lambda>_.
       Inr (masked_less (masked_invalid refl_data) (Fin (-30)), lat, lon))))))))))"

subsection \<open>Box cropping (lines 136-148)\<close>

definition broadcastable :: "nat list \<Rightarrow> nat list \<Rightarrow> bool" where
  "broadcastable s t = list_all (\<lambda>(a, b). a = b \<or> a = 1 \<or> b = 1) (zip (rev s) (rev t))"

text \<open>\<^verbatim>\<open>lat_mask & lon_mask\<close>. Masks of one shape are combined cell by cell. Masks whose
  shapes do not broadcast raise \<^verbatim>\<open>ValueError\<close>. When the shapes differ and broadcast,
  numpy builds a mask of the broadcast shape, which is not the shape of \<^verbatim>\<open>lat\<close> or not
  that of \<^verbatim>\<open>lon\<close>, so that one of the three selections that follow raises
  \<^verbatim>\<open>IndexError\<close>; nothing happens in between, and the model raises it here.\<close>

definition mask_and :: "bool ndarray \<Rightarrow> bool ndarray \<Rightarrow> py_exn + bool ndarray" where
  "mask_and a b =
     (if shape a = shape b
      then Inr (NDArray (shape a) (map (\<lambda>(x, y). x \<and> y) (zip (flat a) (flat b))))
      else if broadcastable (shape a) (shape b) then Inl IndexError
      else Inl (ValueError ''operands could not be broadcast together''))"

definition box_crop ::
  "'a ndarray \<Rightarrow> pyfloat ndarray \<Rightarrow> pyfloat ndarray \<Rightarrow> bounds \<Rightarrow> bounds \<Rightarrow>
     py_exn + ('a ndarray \<times> pyfloat ndarray \<times> pyfloat ndarray)" where
  "box_crop refl_data lat lon lat_bounds lon_bounds =
     (let lat_mask = nd_map (in_window (fst lat_bounds) (snd lat_bounds)) lat;
          lon_mask = nd_map (in_window (fst lon_bounds) (snd lon_bounds)) lon
      in if length (shape lat) = 1 then
           try_bind (bool_index_from 0 lat_mask refl_data) (\<lambda>rows.
           try_bind (bool_index_from 1 lon_mask rows) (\<lambda>refl_crop.
           try_bind (bool_index_from 0 lat_mask lat) (\<lambda>lat_crop.
           try_bind (bool_index_from 0 lon_mask lon) (\<lambda>lon_crop.
             Inr (refl_crop, lat_crop, lon_crop)))))
         else
           try_bind (mask_and lat_mask lon_mask) (\<lambda>mask.
           try_bind (bool_index_from 0 mask refl_data) (\<lambda>refl_crop.
           try_bind (bool_index_from 0 mask lat) (\<lambda>lat_crop.
           try_bind (bool_index_from 0 mask lon) (\<lambda>lon_crop.
             Inr (refl_crop, lat_crop, lon_crop))))))"

subsection \<open>Plotting and saving (lines 134-186)\<close>

text \<open>\<^verbatim>\<open>if lat_bounds and lon_bounds\<close>: \<^verbatim>\<open>None\<close> is false, a pair of floats is true.\<close>

definition plot_reflectivity ::
  "externals \<Rightarrow> masked \<Rightarrow> pyfloat ndarray \<Rightarrow> pyfloat ndarray \<Rightarrow> bounds option \<Rightarrow> bounds option \<Rightarrow>
     py_exn + draw_cmd list" where
  "plot_reflectivity env refl_data lat lon lat_bounds lon_bounds =
     (case (lat_bounds, lon_bounds) of
        (Some lab, Some lob) \<Rightarrow>
          try_bind (box_crop refl_data lat lon lab lob) (\<lambda>(refl_crop, lat_crop, lon_crop).
          try_bind (pcolormesh env lon_crop lat_crop refl_crop) (\<lambda>_.
            Inr [Pcolormesh lon_crop lat_crop refl_crop, SetXlim lob, SetYlim lab]))
      | _ \<Rightarrow>
          (let (LON, LAT) = (if length (shape lat) = 1 then meshgrid lon lat else (lon, lat)) in
           try_bind (pcolormesh env LON LAT refl_data) (\<lambda>_.
             Inr [Pcolormesh LON LAT refl_data])))"

text \<open>The colour bar and \<^verbatim>\<open>savefig\<close>; the file that exists afterwards is the one the
  library wrote.\<close>

definition save_figure :: "externals \<Rightarrow> world \<Rightarrow> draw_cmd list \<Rightarrow> string \<Rightarrow> world \<times> (py_exn + unit)" where
  "save_figure env w fig output_path =
     (case colorbar env fig of
        Inl e \<Rightarrow> (w, Inl e)
      | Inr _ \<Rightarrow>
          (case savefig env output_path fig of
             Inl e \<Rightarrow> (w, Inl e)
           | Inr written \<Rightarrow>
               (w\<lparr>files := insert written (files w),
                   images := images w @ [(written, fig)]\<rparr>, Inr ())))"

text \<open>The body of the \<^verbatim>\<open>try\<close> statement (lines 60-186): it prints what it opens
  (line 72) and what it saved (line 179), and removes the temporary file last.\<close>

definition process_try ::
  "externals \<Rightarrow> world \<Rightarrow> string \<Rightarrow> string \<Rightarrow> bounds option \<Rightarrow> bounds option \<Rightarrow> world \<times> (py_exn + bool)" where
  "process_try env w input_path output_path lat_bounds lon_bounds =
     (case decompress env w input_path of
        (w1, Inl e) \<Rightarrow> (w1, Inl e)
      | (w1, Inr (temp_file, grib_file)) \<Rightarrow>
          (case print_out env (Opening grib_file) of
             Inl e \<Rightarrow> (w1, Inl e)
           | Inr _ \<Rightarrow>
          (case prepare env grib_file of
             Inl e \<Rightarrow> (w1, Inl e)
           | Inr (refl_data, lat, lon) \<Rightarrow>
               (case plot_reflectivity env refl_data lat lon lat_bounds lon_bounds of
                  Inl e \<Rightarrow> (w1, Inl e)
                | Inr fig \<Rightarrow>
                    (case save_figure env w1 fig output_path of
                       (w2, Inl e) \<Rightarrow> (w2, Inl e)
                     | (w2, Inr _) \<Rightarrow>
                         (case print_out env (RadarSaved output_path) of
                            Inl e \<Rightarrow> (w2, Inl e)
                          | Inr _ \<Rightarrow> (cleanup w2 temp_file, Inr True)))))))"

text \<open>The handler \<^verbatim>\<open>except Exception\<close> (lines 188-192) prints the error and the
  traceback and returns \<^verbatim>\<open>False\<close>; an exception raised by its own two prints leaves
  the function.\<close>

definition except_handler :: "externals \<Rightarrow> world \<times> (py_exn + bool) \<Rightarrow> world \<times> (py_exn + bool)" where
  "except_handler env res =
     (case res of
        (w', Inr b) \<Rightarrow> (w', Inr b)
      | (w', Inl e) \<Rightarrow>
          (case print_out env (ErrorProcessing e) of
             Inl e' \<Rightarrow> (w', Inl e')
           | Inr _ \<Rightarrow>
               (case print_exc env e of
                  Inl e' \<Rightarrow> (w', Inl e')
                | Inr _ \<Rightarrow> (w', Inr False))))"

definition process_grib2_file ::
  "externals \<Rightarrow> world \<Rightarrow> string \<Rightarrow> string \<Rightarrow> bounds option \<Rightarrow> bounds option \<Rightarrow> world \<times> (py_exn + bool)" where
  "process_grib2_file env w input_path output_path lat_bounds lon_bounds =
     except_handler env (process_try env w input_path output_path lat_bounds lon_bounds)"

section \<open>The MRMS pipeline (\<^verbatim>\<open>mrms_processor.py\<close>)\<close>

subsection \<open>The two loaders (lines 26-77)\<close>

text \<open>\<^verbatim>\<open>data[data <= -990] = np.nan\<close>.\<close>

definition mask_sentinel :: "pyfloat ndarray \<Rightarrow> pyfloat ndarray" where
  "mask_sentinel data = nd_map (\<lambda>x. if f_le x (Fin (-990)) then NaN else x) data"

definition data_vars :: "dataset \<Rightarrow> string list" where
  "data_vars ds = filter (\<lambda>v. v \<notin> set (coords ds)) (map fst (variables ds))"

definition load_grib2_xarray ::
  "externals \<Rightarrow> string \<Rightarrow> py_exn + (pyfloat ndarray \<times> pyfloat ndarray \<times> pyfloat ndarray \<times> string option)" where
  "load_grib2_xarray env grib_path =
     try_bind (open_dataset env grib_path False) (\<lambda>ds.
       (case data_vars ds of
          [] \<Rightarrow> Inl IndexError
        | var_name # _ \<Rightarrow>
            try_bind (get_var ds var_name) (\<lambda>raw.
            try_bind (get_var ds ''latitude'') (\<lambda>lat1d.
            try_bind (get_var ds ''longitude'') (\<lambda>lon1d.
              (let data = nd_map (astype_float32 env) raw;
                   (lons, lats) = (if ndim lat1d = 1 \<and> ndim lon1d = 1 then meshgrid lon1d lat1d
                                   else (lon1d, lat1d));
                   valid_date = (if ''time'' \<in> set (coords ds) then Some (time_of ds) else None)
               in try_bind (print_out env (LoadedXarray (shape data))) (\<lambda>_.
                    Inr (mask_sentinel data, lats, lons, valid_date))))))))"

text \<open>\<^verbatim>\<open>load_grib2\<close>: the \<^verbatim>\<open>ImportError\<close> of \<^verbatim>\<open>import pygrib\<close> selects the fallback;
  with pygrib, the first message gives the cells, the coordinate grids and the date. The
  shape and the date are printed before the sentinel is replaced (lines 39-40), the range
  after it (lines 43-45).\<close>

definition load_grib2 ::
  "externals \<Rightarrow> string \<Rightarrow> py_exn + (pyfloat ndarray \<times> pyfloat ndarray \<times> pyfloat ndarray \<times> string option)" where
  "load_grib2 env grib_path =
     (if pygrib_available env then
        try_bind (pygrib_open env grib_path) (\<lambda>(raw, lats, lons, valid_date).
        try_bind (print_out env (LoadedPygrib (shape raw))) (\<lambda>_.
        try_bind (print_out env (ValidDate valid_date)) (\<lambda>_.
          (let data = mask_sentinel (nd_map (astype_float32 env) raw) in
           try_bind (nan_range data) (\<lambda>_.
           try_bind (print_out env (ReflectivityRange data)) (\<lambda>_.
             Inr (data, lats, lons, Some valid_date)))))))
      else
        try_bind (print_out env PygribUnavailable) (\<lambda>_. load_grib2_xarray env grib_path))"

subsection \<open>Regional crop (lines 84-121)\<close>

text \<open>\<^verbatim>\<open>lats[:, 0]\<close> of a 2-D array.\<close>

definition first_column :: "'a ndarray \<Rightarrow> py_exn + 'a list" where
  "first_column a =
     (case shape a of
        [n, m] \<Rightarrow> if m = 0 then Inl IndexError else Inr (map (\<lambda>i. flat a ! (i * m)) [0..<n])
      | _ \<Rightarrow> Inl IndexError)"

text \<open>\<^verbatim>\<open>lons[0, :]\<close>. It is 1-D for a 2-D array only; \<^verbatim>\<open>np.ix_\<close> refuses the mask
  made of anything else with \<^verbatim>\<open>ValueError\<close>, which the model raises here.\<close>

definition first_row :: "'a ndarray \<Rightarrow> py_exn + 'a list" where
  "first_row a =
     (case shape a of
        n # m # rest \<Rightarrow>
          if n = 0 then Inl IndexError
          else if rest = [] then Inr (take m (flat a))
          else Inl (ValueError ''Cross index must be 1 dimensional'')
      | _ \<Rightarrow> Inl IndexError)"

definition to_standard_lon :: "pyfloat \<Rightarrow> pyfloat" where
  "to_standard_lon x = (if f_gt x (Fin 180) then f_sub x (Fin 360) else x)"

definition crop_region ::
  "'a ndarray \<Rightarrow> pyfloat ndarray \<Rightarrow> pyfloat ndarray \<Rightarrow> pyfloat \<Rightarrow> pyfloat \<Rightarrow> pyfloat \<Rightarrow>
     py_exn + ('a ndarray \<times> pyfloat ndarray \<times> pyfloat ndarray)" where
  "crop_region data lats lons center_lat center_lon radius_deg =
     (let lat_min = f_sub center_lat radius_deg;
          lat_max = f_add center_lat radius_deg;
          grid_center_lon = f_mod360 center_lon;
          lon_min = f_sub grid_center_lon radius_deg;
          lon_max = f_add grid_center_lon radius_deg
      in try_bind
           (if ndim lats = 2 then
              try_bind (first_column lats) (\<lambda>lat_col.
              try_bind (first_row lons) (\<lambda>lon_row.
                (let row_mask = map (in_window lat_min lat_max) lat_col;
                     col_mask = map (in_window lon_min lon_max) lon_row
                 in try_bind (ix_index row_mask col_mask data) (\<lambda>data_c.
                    try_bind (ix_index row_mask col_mask lats) (\<lambda>lats_c.
                    try_bind (ix_index row_mask col_mask lons) (\<lambda>lons_c.
                      Inr (data_c, lats_c, lons_c)))))))
            else Inr (data, lats, lons))
           (\<lambda>(data_c, lats_c, lons_c). Inr (data_c, lats_c, nd_map to_standard_lon lons_c)))"

subsection \<open>Rendering (lines 159-240) and the entry point (lines 247-271)\<close>





section \<open>Sample inputs\<close>

text \<open>A small MRMS-like grid with longitudes in the 0-360 convention, a dataset holding
  it, and collaborators that decode to it. The renderer of \<open>sample_env True\<close> refuses a
  mesh without cells; that of \<open>sample_env False\<close> draws anything.\<close>

definition sample_grid :: "pyfloat ndarray" where
  "sample_grid = NDArray [2, 3] [Fin (-999), Fin 12.5, Fin (-990), Fin (-989.5), NaN, Fin 45]"

definition sample_lats :: "pyfloat ndarray" where
  "sample_lats = NDArray [2, 3] [Fin 38, Fin 38, Fin 38, Fin 37, Fin 37, Fin 37]"

definition sample_lons :: "pyfloat ndarray" where
  "sample_lons = NDArray [2, 3] [Fin 230, Fin 240, Fin 250, Fin 230, Fin 240, Fin 250]"

definition sample_dataset :: dataset where
  "sample_dataset =
     Dataset [(''latitude'', NDArray [2] [Fin 38, Fin 37]),
              (''longitude'', NDArray [3] [Fin 230, Fin 240, Fin 250]),
              (''unknown'', sample_grid)]
             [''latitude'', ''longitude''] ''2024-02-04T18:00:00''"

definition sample_env :: "bool \<Rightarrow> externals" where
  "sample_env strict =
     \<lparr> can_create = (\<lambda>_. True),
       valid_gzip = (\<lambda>_. True),
       open_dataset = (\<lambda>_ _. Inr sample_dataset),
       pcolormesh = (\<lambda>X Y C. if strict \<and> nd_size C = 0
                              then Inl (ValueError ''mesh without cells'') else Inr ()),
       colorbar = (\<lambda>_. Inr ()),
       savefig = (\<lambda>path _. Inr path),
       print_out = (\<lambda>_. Inr ()),
       print_exc = (\<lambda>_. Inr ()),
       pygrib_available = True,
       pygrib_open = (\<lambda>_. Inr (sample_grid, sample_lats, sample_lons, ''2024-02-04 18:00:00'')),
       astype_float32 = (\<lambda>x. x),
       geo_axes = (\<lambda>_ _ _. Inr ()),
       py_float = (\<lambda>s. if s = ''0'' then Inr (Fin 0)
                        else Inl (ValueError ''could not convert string to float'')) \<rparr>"

text \<open>A 10 by 10 grid with 1-D coordinate vectors; cell \<open>(i, j)\<close> holds \<open>10 i + j\<close>.\<close>

definition lat10 :: "pyfloat ndarray" where
  "lat10 = NDArray [10] (map Fin [25, 28, 31, 34, 37, 40, 43, 46, 49, 52])"

definition lon10 :: "pyfloat ndarray" where
  "lon10 = NDArray [10] (map Fin [-110, -106, -102, -98, -94, -90, -86, -82, -78, -74])"

definition grid10 :: "pyfloat ndarray" where
  "grid10 = NDArray [10, 10] (map (\<lambda>k. Fin (real k)) [0..<100])"

text \<open>Collaborators whose decoder rejects every file.\<close>

definition undecodable_env :: externals where
  "undecodable_env = (sample_env False)\<lparr> open_dataset := (\<lambda>_ _. Inl (LibraryError ''not a GRIB file'')) \<rparr>"



definition empty_world :: world where
  "empty_world = \<lparr> files = {}, images = [] \<rparr>"

section \<open>Properties\<close>

subsection \<open>Colour tables\<close>

text \<open>
  C5. In both fixed reflectivity tables (\<^verbatim>\<open>create_radar_colormap\<close> of the generic path
  and \<^verbatim>\<open>nexrad_colormap\<close> of the MRMS path) the number of colours is the number of
  boundaries minus one, and the boundaries are strictly increasing.
\<close>

theorem colormap_tables_consistent:
  "(case create_radar_colormap of (colors, bounds, n) \<Rightarrow>
      int (length colors) = int (length bounds) - 1 \<and> n = length colors \<and> sorted_wrt (<) bounds)
   \<and> (case nexrad_colormap of (colors, (bounds, n), bounds') \<Rightarrow>
      int (length colors) = int (length bounds) - 1 \<and> n = length colors \<and> bounds' = bounds
      \<and> sorted_wrt (<) bounds)"
  by (simp add: create_radar_colormap_def nexrad_colormap_def radar_colors_def radar_bounds_def
      nexrad_colors_def nexrad_bounds_def)

subsection \<open>Exceptions in sequence\<close>

lemma try_bindE:
  assumes "try_bind m f = Inr y"
  obtains x where "m = Inr x" and "f x = Inr y"
  using assms by (cases m) (simp_all add: try_bind_def)

lemma try_bind_Inr [simp]: "try_bind (Inr x) f = f x"
  by (simp add: try_bind_def)

lemma try_bind_Inl [simp]: "try_bind (Inl e) f = Inl e"
  by (simp add: try_bind_def)

subsection \<open>Sentinel masking\<close>

lemma mask_sentinel_cell:
  "i < length (flat data) \<Longrightarrow>
     flat (mask_sentinel data) ! i = (if f_le (flat data ! i) (Fin (-990)) then NaN else flat data ! i)"
  by (simp add: mask_sentinel_def nd_map_def)

text \<open>
  C4. The sentinel-masking step turns every cell with a value at most -990 into
  not-a-number and leaves every cell with a value above -990 as it is, and it keeps the
  shape. Both loaders return the grid after this step: \<^verbatim>\<open>load_grib2\<close> with pygrib and
  \<^verbatim>\<open>_load_grib2_xarray\<close> apply it to the cells cast to float32.
\<close>

theorem sentinel_masking:
  "(\<forall>i < length (flat g).
       (f_le (flat g ! i) (Fin (-990)) \<longrightarrow> flat (mask_sentinel g) ! i = NaN) \<and>
       (f_gt (flat g ! i) (Fin (-990)) \<longrightarrow> flat (mask_sentinel g) ! i = flat g ! i))
   \<and> shape (mask_sentinel g) = shape g \<and> length (flat (mask_sentinel g)) = length (flat g)
   \<and> (pygrib_available env \<longrightarrow> load_grib2 env path = Inr (data, lats, lons, vd) \<longrightarrow>
        (\<exists>raw d. pygrib_open env path = Inr (raw, lats, lons, d)
           \<and> data = mask_sentinel (nd_map (astype_float32 env) raw)))
   \<and> (load_grib2_xarray env path = Inr (data, lats, lons, vd) \<longrightarrow>
        (\<exists>ds v raw. open_dataset env path False = Inr ds \<and> get_var ds v = Inr raw
           \<and> data = mask_sentinel (nd_map (astype_float32 env) raw)))"
proof (intro conjI allI impI)
  fix i assume "i < length (flat g)" "f_le (flat g ! i) (Fin (-990))"
  then show "flat (mask_sentinel g) ! i = NaN" by (simp add: mask_sentinel_cell)
next
  fix i assume i: "i < length (flat g)" and gt: "f_gt (flat g ! i) (Fin (-990))"
  from gt have "\<not> f_le (flat g ! i) (Fin (-990))" by (simp add: f_gt_def f_lt_def)
  with i show "flat (mask_sentinel g) ! i = flat g ! i" by (simp add: mask_sentinel_cell)
next
  show "shape (mask_sentinel g) = shape g" by (simp add: mask_sentinel_def nd_map_def)
next
  show "length (flat (mask_sentinel g)) = length (flat g)" by (simp add: mask_sentinel_def nd_map_def)
next
  assume "pygrib_available env" "load_grib2 env path = Inr (data, lats, lons, vd)"
  then show "\<exists>raw d. pygrib_open env path = Inr (raw, lats, lons, d)
           \<and> data = mask_sentinel (nd_map (astype_float32 env) raw)"
    by (auto simp: load_grib2_def Let_def elim!: try_bindE)
next
  assume h: "load_grib2_xarray env path = Inr (data, lats, lons, vd)"
  from h obtain ds where ds: "open_dataset env path False = Inr ds"
    and h1: "(case data_vars ds of [] \<Rightarrow> Inl IndexError
        | var_name # _ \<Rightarrow>
            try_bind (get_var ds var_name) (\<lambda>raw.
            try_bind (get_var ds ''latitude'') (\<lambda>lat1d.
            try_bind (get_var ds ''longitude'') (\<lambda>lon1d.
              (let data = nd_map (astype_float32 env) raw;
                   (lons, lats) = (if ndim lat1d = 1 \<and> ndim lon1d = 1 then meshgrid lon1d lat1d
                                   else (lon1d, lat1d));
                   valid_date = (if ''time'' \<in> set (coords ds) then Some (time_of ds) else None)
               in try_bind (print_out env (LoadedXarray (shape data))) (\<lambda>_.
                    Inr (mask_sentinel data, lats, lons, valid_date))))))) = Inr (data, lats, lons, vd)"
    unfolding load_grib2_xarray_def by (erule try_bindE)
  from h1 obtain v vs where v: "data_vars ds = v # vs" by (cases "data_vars ds") auto
  from h1 v obtain raw where raw: "get_var ds v = Inr raw"
    and "data = mask_sentinel (nd_map (astype_float32 env) raw)"
    by (auto elim!: try_bindE simp: Let_def split: prod.splits)
  with ds show "\<exists>ds v raw. open_dataset env path False = Inr ds \<and> get_var ds v = Inr raw
           \<and> data = mask_sentinel (nd_map (astype_float32 env) raw)"
    by blast
qed

theorem sentinel_masking_witness:
  "f_le (flat sample_grid ! 0) (Fin (-990)) \<and> flat (mask_sentinel sample_grid) ! 0 = NaN
   \<and> f_le (flat sample_grid ! 2) (Fin (-990)) \<and> flat (mask_sentinel sample_grid) ! 2 = NaN
   \<and> f_gt (flat sample_grid ! 3) (Fin (-990)) \<and> flat (mask_sentinel sample_grid) ! 3 = Fin (-989.5)
   \<and> pygrib_available (sample_env False)
   \<and> load_grib2 (sample_env False) ''mrms.grib2''
       = Inr (mask_sentinel sample_grid, sample_lats, sample_lons, Some ''2024-02-04 18:00:00'')
   \<and> load_grib2_xarray (sample_env False) ''mrms.grib2''
       = Inr (mask_sentinel sample_grid, sample_lats, sample_lons, None)"
  using sentinel_masking [where g = sample_grid and env = "sample_env False"
      and path = "''mrms.grib2''" and data = "mask_sentinel sample_grid"
      and lats = sample_lats and lons = sample_lons and vd = "Some ''2024-02-04 18:00:00''"]
  by (simp add: load_grib2_def load_grib2_xarray_def sample_env_def sample_dataset_def
      sample_grid_def sample_lats_def sample_lons_def mask_sentinel_def nd_map_def nan_range_def
      nd_size_def data_vars_def get_var_def ndim_def meshgrid_def f_gt_def f_lt_def
      numeral_2_eq_2 numeral_3_eq_3)

subsection \<open>Variable resolution\<close>

lemma find_first:
  "i < length xs \<Longrightarrow> P (xs ! i) \<Longrightarrow> (\<forall>j<i. \<not> P (xs ! j)) \<Longrightarrow> find P xs = Some (xs ! i)"
  by (auto simp: find_Some_iff)

lemma priority_not_coord: "n \<in> set priority_names \<Longrightarrow> n \<notin> coord_vars"
  by (auto simp: priority_names_def coord_vars_def)

lemma join_comma_contains:
  "x \<in> set xs \<Longrightarrow> \<exists>pre post. join_comma xs = pre @ x @ post"
proof (induction xs rule: join_comma.induct)
  case 1
  then show ?case by simp
next
  case (2 y)
  then have "join_comma [y] = [] @ x @ []" by simp
  then show ?case by blast
next
  case (3 y z zs)
  show ?case
  proof (cases "x = y")
    case True
    then have "join_comma (y # z # zs) = [] @ x @ ('', '' @ join_comma (z # zs))" by simp
    then show ?thesis by blast
  next
    case False
    with 3 obtain pre post where "join_comma (z # zs) = pre @ x @ post" by auto
    then have "join_comma (y # z # zs) = (y @ '', '' @ pre) @ x @ post" by simp
    then show ?thesis by blast
  qed
qed

lemma str_list_contains:
  assumes "n \<in> set names"
  shows "\<exists>pre post. str_list names = pre @ n @ post"
proof -
  let ?q = "\<lambda>s. [CHR 0x27] @ s @ [CHR 0x27]"
  from assms have "?q n \<in> set (map ?q names)" by simp
  then obtain pre post where "join_comma (map ?q names) = pre @ ?q n @ post"
    using join_comma_contains by blast
  then have "str_list names = (''['' @ pre @ [CHR 0x27]) @ n @ ([CHR 0x27] @ post @ '']'')"
    by (simp add: str_list_def)
  then show ?thesis by blast
qed

lemma find_variable_priority:
  assumes "i < length priority_names" "priority_names ! i \<in> set names"
    "\<forall>j<i. priority_names ! j \<notin> set names"
  shows "find_variable names = Inr (priority_names ! i)"
proof -
  have "find (\<lambda>name. name \<in> set names) priority_names = Some (priority_names ! i)"
    using assms by (intro find_first) auto
  then show ?thesis by (simp add: find_variable_def)
qed

lemma find_variable_fallback:
  assumes "set priority_names \<inter> set names = {}" "names = pre @ v # post"
    "set pre \<subseteq> coord_vars" "v \<notin> coord_vars"
  shows "find_variable names = Inr v"
proof -
  have "find (\<lambda>name. name \<in> set names) priority_names = None"
    using assms(1) by (auto simp: find_None_iff)
  moreover have "filter (\<lambda>v. v \<notin> coord_vars) pre = []"
    using assms(3) by (auto simp: filter_empty_conv)
  ultimately show ?thesis using assms(2,4) by (simp add: find_variable_def)
qed

lemma find_variable_none:
  assumes "set names \<subseteq> coord_vars"
  shows "find_variable names = Inl (ValueError (''No data variable found. Variables: '' @ str_list names))"
proof -
  have "find (\<lambda>name. name \<in> set names) priority_names = None"
    using assms priority_not_coord by (auto simp: find_None_iff)
  moreover have "filter (\<lambda>v. v \<notin> coord_vars) names = []"
    using assms by (auto simp: filter_empty_conv)
  ultimately show ?thesis by (simp add: find_variable_def)
qed

text \<open>
  C6. \<^verbatim>\<open>process_grib2_file\<close> scans the priority list unknown, refc, REFC, reflectivity,
  dBZ, Reflectivity in order and takes the first name the dataset has; when it has none
  of them, it takes the first variable whose name is not one of latitude, longitude, lat,
  lon, x, y, time; and when every variable is named like a coordinate it raises
  \<^verbatim>\<open>ValueError\<close> with a message that lists all the names, instead of taking a coordinate
  as data.
\<close>

theorem variable_resolution:
  "priority_names = [''unknown'', ''refc'', ''REFC'', ''reflectivity'', ''dBZ'', ''Reflectivity'']
   \<and> coord_vars = {''latitude'', ''longitude'', ''lat'', ''lon'', ''x'', ''y'', ''time''}
   \<and> (\<forall>i. i < length priority_names \<longrightarrow> priority_names ! i \<in> set names \<longrightarrow>
          (\<forall>j<i. priority_names ! j \<notin> set names) \<longrightarrow>
          find_variable names = Inr (priority_names ! i))
   \<and> (\<forall>pre v post. set priority_names \<inter> set names = {} \<longrightarrow> names = pre @ v # post \<longrightarrow>
          set pre \<subseteq> coord_vars \<longrightarrow> v \<notin> coord_vars \<longrightarrow> find_variable names = Inr v)
   \<and> (set names \<subseteq> coord_vars \<longrightarrow>
          find_variable names
            = Inl (ValueError (''No data variable found. Variables: '' @ str_list names))
          \<and> (\<forall>n \<in> set names. \<exists>pre post. str_list names = pre @ n @ post))
   \<and> (open_with_fallback env grib_file = Inr ds \<longrightarrow> set (map fst (variables ds)) \<subseteq> coord_vars \<longrightarrow>
          prepare env grib_file
            = Inl (ValueError (''No data variable found. Variables: ''
                                 @ str_list (map fst (variables ds)))))"
proof (intro conjI allI impI ballI)
  show "priority_names = [''unknown'', ''refc'', ''REFC'', ''reflectivity'', ''dBZ'', ''Reflectivity'']"
    by (simp add: priority_names_def)
  show "coord_vars = {''latitude'', ''longitude'', ''lat'', ''lon'', ''x'', ''y'', ''time''}"
    by (simp add: coord_vars_def)
next
  fix i assume "i < length priority_names" "priority_names ! i \<in> set names"
    "\<forall>j<i. priority_names ! j \<notin> set names"
  then show "find_variable names = Inr (priority_names ! i)" by (rule find_variable_priority)
next
  fix pre v post
  assume "set priority_names \<inter> set names = {}" "names = pre @ v # post"
    "set pre \<subseteq> coord_vars" "v \<notin> coord_vars"
  then show "find_variable names = Inr v" by (rule find_variable_fallback)
next
  assume "set names \<subseteq> coord_vars"
  then show "find_variable names
      = Inl (ValueError (''No data variable found. Variables: '' @ str_list names))"
    by (rule find_variable_none)
next
  fix n assume "n \<in> set names"
  then show "\<exists>pre post. str_list names = pre @ n @ post" by (rule str_list_contains)
next
  assume "open_with_fallback env grib_file = Inr ds" "set (map fst (variables ds)) \<subseteq> coord_vars"
  then show "prepare env grib_file
      = Inl (ValueError (''No data variable found. Variables: '' @ str_list (map fst (variables ds))))"
    by (simp add: prepare_def find_variable_none)
qed

theorem variable_resolution_witness:
  "find_variable [''time'', ''REFC'', ''refc'', ''latitude''] = Inr ''refc''
   \<and> find_variable [''latitude'', ''t2m'', ''lon'', ''u10''] = Inr ''t2m''
   \<and> find_variable [''latitude'', ''longitude'', ''time'']
       = Inl (ValueError (''No data variable found. Variables: ''
                @ str_list [''latitude'', ''longitude'', ''time'']))
   \<and> prepare ((sample_env False)\<lparr>open_dataset :=
          (\<lambda>_ _. Inr (Dataset [(''latitude'', NDArray [1] [Fin 38]), (''time'', NDArray [] [Fin 0])]
                           [''latitude'', ''time''] ''2024-02-04''))\<rparr>) ''radar.grib2''
       = Inl (ValueError (''No data variable found. Variables: '' @ str_list [''latitude'', ''time'']))"
proof -
  let ?A = "[''time'', ''REFC'', ''refc'', ''latitude'']"
  let ?B = "[''latitude'', ''t2m'', ''lon'', ''u10'']"
  let ?C = "[''latitude'', ''longitude'', ''time'']"
  let ?ds = "Dataset [(''latitude'', NDArray [1] [Fin 38]), (''time'', NDArray [] [Fin 0])]
                           [''latitude'', ''time''] ''2024-02-04''"
  let ?env = "(sample_env False)\<lparr>open_dataset := (\<lambda>_ _. Inr ?ds)\<rparr>"
  have "1 < length priority_names" "priority_names ! 1 \<in> set ?A"
    "\<forall>j<1. priority_names ! j \<notin> set ?A"
    by (simp_all add: priority_names_def)
  with variable_resolution [where names = ?A] have "find_variable ?A = Inr (priority_names ! 1)"
    by blast
  then have a: "find_variable ?A = Inr ''refc''" by (simp add: priority_names_def)
  have "set priority_names \<inter> set ?B = {}" "?B = [''latitude''] @ ''t2m'' # [''lon'', ''u10'']"
    "set [''latitude''] \<subseteq> coord_vars" "''t2m'' \<notin> coord_vars"
    by (simp_all add: priority_names_def coord_vars_def)
  with variable_resolution [where names = ?B] have b: "find_variable ?B = Inr ''t2m''"
    by blast
  have "set ?C \<subseteq> coord_vars" by (simp add: coord_vars_def)
  with variable_resolution [where names = ?C]
  have c: "find_variable ?C = Inl (ValueError (''No data variable found. Variables: '' @ str_list ?C))"
    by blast
  have "open_with_fallback ?env ''radar.grib2'' = Inr ?ds" "set (map fst (variables ?ds)) \<subseteq> coord_vars"
    by (simp_all add: open_with_fallback_def sample_env_def coord_vars_def)
  with variable_resolution [where env = ?env and grib_file = "''radar.grib2''" and ds = ?ds]
  have "prepare ?env ''radar.grib2''
      = Inl (ValueError (''No data variable found. Variables: '' @ str_list (map fst (variables ?ds))))"
    by blast
  then have d: "prepare ?env ''radar.grib2''
      = Inl (ValueError (''No data variable found. Variables: '' @ str_list [''latitude'', ''time'']))"
    by simp
  from a b c d show ?thesis by blast
qed

subsection \<open>The time dimension\<close>

text \<open>
  C9 (as amended). An array with at most two dimensions is left unchanged. An array with
  more than two dimensions loses its leading axis: index 0 is taken when that axis has
  length 1, the last index when it is longer, and an empty leading axis raises
  \<^verbatim>\<open>IndexError\<close>. The result has one dimension less than the input, so it is 2-D
  exactly when the input is 3-D.
\<close>

theorem collapse_time_policy:
  "(ndim a \<le> 2 \<longrightarrow> collapse_time a = Inr a)
   \<and> (ndim a > 2 \<longrightarrow> shape a ! 0 = 1 \<longrightarrow>
        collapse_time a = Inr (NDArray (tl (shape a)) (take (prod_list (tl (shape a))) (flat a))))
   \<and> (ndim a > 2 \<longrightarrow> shape a ! 0 > 1 \<longrightarrow>
        collapse_time a = Inr (NDArray (tl (shape a))
          (take (prod_list (tl (shape a))) (drop ((shape a ! 0 - 1) * prod_list (tl (shape a))) (flat a)))))
   \<and> (ndim a > 2 \<longrightarrow> shape a ! 0 = 0 \<longrightarrow> collapse_time a = Inl IndexError)
   \<and> (\<forall>r. ndim a > 2 \<longrightarrow> collapse_time a = Inr r \<longrightarrow>
        ndim r = ndim a - 1 \<and> (ndim r = 2 \<longleftrightarrow> ndim a = 3))"
proof (intro conjI allI impI)
  assume "ndim a \<le> 2"
  then show "collapse_time a = Inr a" by (simp add: collapse_time_def ndim_def)
next
  assume "2 < ndim a" "shape a ! 0 = 1"
  then show "collapse_time a = Inr (NDArray (tl (shape a)) (take (prod_list (tl (shape a))) (flat a)))"
    by (cases "shape a") (simp_all add: collapse_time_def index0_def ndim_def)
next
  assume "2 < ndim a" "1 < shape a ! 0"
  then show "collapse_time a = Inr (NDArray (tl (shape a))
          (take (prod_list (tl (shape a))) (drop ((shape a ! 0 - 1) * prod_list (tl (shape a))) (flat a))))"
    by (cases "shape a") (auto simp: collapse_time_def index0_def ndim_def Let_def nat_diff_distrib')
next
  assume "2 < ndim a" "shape a ! 0 = 0"
  then show "collapse_time a = Inl IndexError"
    by (cases "shape a") (simp_all add: collapse_time_def index0_def ndim_def)
next
  fix r assume h: "2 < ndim a" "collapse_time a = Inr r"
  then show "ndim r = ndim a - 1"
    by (cases "shape a") (auto simp: collapse_time_def index0_def ndim_def Let_def split: if_splits)
next
  fix r assume h: "2 < ndim a" "collapse_time a = Inr r"
  then have "ndim r = ndim a - 1"
    by (cases "shape a") (auto simp: collapse_time_def index0_def ndim_def Let_def split: if_splits)
  with h(1) show "(ndim r = 2) = (ndim a = 3)" by auto
qed

theorem collapse_time_policy_witness:
  "collapse_time (NDArray [2, 3] [Fin 1, Fin 2, Fin 3, Fin 4, Fin 5, Fin 6])
     = Inr (NDArray [2, 3] [Fin 1, Fin 2, Fin 3, Fin 4, Fin 5, Fin 6])
   \<and> collapse_time (NDArray [1, 2, 2] [Fin 1, Fin 2, Fin 3, Fin 4]) = Inr (NDArray [2, 2] [Fin 1, Fin 2, Fin 3, Fin 4])
   \<and> collapse_time (NDArray [3, 1, 2] [Fin 1, Fin 2, Fin 3, Fin 4, Fin 5, Fin 6]) = Inr (NDArray [1, 2] [Fin 5, Fin 6])
   \<and> collapse_time (NDArray [0, 2, 2] ([] :: pyfloat list)) = Inl IndexError
   \<and> ndim (NDArray [1, 2] [Fin 5, Fin 6]) = 2"
  using collapse_time_policy [of "NDArray [2, 3] [Fin 1, Fin 2, Fin 3, Fin 4, Fin 5, Fin 6]"]
    collapse_time_policy [of "NDArray [1, 2, 2] [Fin 1, Fin 2, Fin 3, Fin 4]"]
    collapse_time_policy [of "NDArray [3, 1, 2] [Fin 1, Fin 2, Fin 3, Fin 4, Fin 5, Fin 6]"]
    collapse_time_policy [of "NDArray [0, 2, 2] ([] :: pyfloat list)"]
  by (simp add: ndim_def)

text \<open>A 4-D array comes out 3-D, not 2-D.\<close>

theorem collapse_time_counterexample:
  "ndim (NDArray [2, 1, 1, 1] [Fin 10, Fin 20]) > 2
   \<and> collapse_time (NDArray [2, 1, 1, 1] [Fin 10, Fin 20]) = Inr (NDArray [1, 1, 1] [Fin 20])
   \<and> ndim (NDArray [1, 1, 1] [Fin 20]) \<noteq> 2"
  by (simp add: collapse_time_def index0_def ndim_def)

subsection \<open>Cropping needs both bounds\<close>

text \<open>
  C10. \<^verbatim>\<open>process_grib2_file\<close> crops and sets crop-driven axis limits only when both
  \<^verbatim>\<open>lat_bounds\<close> and \<^verbatim>\<open>lon_bounds\<close> are given: with one of them given and the other
  \<^verbatim>\<open>None\<close> it does exactly what it does with neither, which is to draw the whole grid
  without axis limits.
\<close>

theorem bounds_need_both:
  "process_grib2_file env w input_path output_path (Some lab) None
     = process_grib2_file env w input_path output_path None None
   \<and> process_grib2_file env w input_path output_path None (Some lob)
     = process_grib2_file env w input_path output_path None None
   \<and> plot_reflectivity env refl_data lat lon (Some lab) None
     = plot_reflectivity env refl_data lat lon None None
   \<and> plot_reflectivity env refl_data lat lon None (Some lob)
     = plot_reflectivity env refl_data lat lon None None
   \<and> plot_reflectivity env refl_data lat lon None None
     = (let (LON, LAT) = (if length (shape lat) = 1 then meshgrid lon lat else (lon, lat)) in
        try_bind (pcolormesh env LON LAT refl_data) (\<lambda>_. Inr [Pcolormesh LON LAT refl_data]))
   \<and> plot_reflectivity env refl_data lat lon (Some lab) (Some lob)
     = try_bind (box_crop refl_data lat lon lab lob) (\<lambda>(refl_crop, lat_crop, lon_crop).
       try_bind (pcolormesh env lon_crop lat_crop refl_crop) (\<lambda>_.
         Inr [Pcolormesh lon_crop lat_crop refl_crop, SetXlim lob, SetYlim lab]))"
proof -
  have p1: "plot_reflectivity env refl_data lat lon (Some lab) None
     = plot_reflectivity env refl_data lat lon None None" for refl_data lat lon
    by (simp add: plot_reflectivity_def)
  have p2: "plot_reflectivity env refl_data lat lon None (Some lob)
     = plot_reflectivity env refl_data lat lon None None" for refl_data lat lon
    by (simp add: plot_reflectivity_def)
  have "process_grib2_file env w input_path output_path (Some lab) None
     = process_grib2_file env w input_path output_path None None"
    unfolding process_grib2_file_def process_try_def p1 ..
  moreover have "process_grib2_file env w input_path output_path None (Some lob)
     = process_grib2_file env w input_path output_path None None"
    unfolding process_grib2_file_def process_try_def p2 ..
  moreover have "plot_reflectivity env refl_data lat lon None None
     = (let (LON, LAT) = (if length (shape lat) = 1 then meshgrid lon lat else (lon, lat)) in
        try_bind (pcolormesh env LON LAT refl_data) (\<lambda>_. Inr [Pcolormesh LON LAT refl_data]))"
    by (simp add: plot_reflectivity_def)
  moreover have "plot_reflectivity env refl_data lat lon (Some lab) (Some lob)
     = try_bind (box_crop refl_data lat lon lab lob) (\<lambda>(refl_crop, lat_crop, lon_crop).
       try_bind (pcolormesh env lon_crop lat_crop refl_crop) (\<lambda>_.
         Inr [Pcolormesh lon_crop lat_crop refl_crop, SetXlim lob, SetYlim lab]))"
    by (simp add: plot_reflectivity_def)
  ultimately show ?thesis using p1 p2 by simp
qed

theorem bounds_need_both_witness:
  "process_grib2_file (sample_env False) empty_world ''radar.grib2'' ''out.png''
       (Some (Fin 30, Fin 40)) None
     = process_grib2_file (sample_env False) empty_world ''radar.grib2'' ''out.png'' None None"
  by (rule bounds_need_both [THEN conjunct1])

subsection \<open>Selecting cells by masks\<close>

lemma nonzero_less: "i \<in> set (nonzero m) \<Longrightarrow> i < length m"
  by (simp add: nonzero_def)

lemma nonzero_distinct: "distinct (nonzero m)"
  by (simp add: nonzero_def)

lemma length_nonzero_le: "length (nonzero m) \<le> length m"
  using length_filter_le [of "\<lambda>i. m ! i" "[0..<length m]"] by (simp add: nonzero_def)

lemma nonzero_map: "nonzero (map P xs) = filter (\<lambda>i. P (xs ! i)) [0..<length xs]"
  by (auto simp: nonzero_def intro: filter_cong)

lemma select_nth:
  assumes "length xs = length m"
  shows "select xs m = map ((!) xs) (nonzero m)"
proof -
  have "zip xs m = map (\<lambda>i. (xs ! i, m ! i)) [0..<length m]"
    using assms by (intro nth_equalityI) auto
  then show ?thesis
    by (simp add: select_def nonzero_def filter_map comp_def)
qed

lemma count_true_nonzero: "count_true m = length (nonzero m)"
proof -
  have "filter id m = filter id (map ((!) m) [0..<length m])" by (simp add: map_nth)
  also have "\<dots> = map ((!) m) (nonzero m)" by (simp add: filter_map comp_def nonzero_def)
  finally show ?thesis by (simp add: count_true_def)
qed

lemma length_chunks [simp]: "length (chunks n k xs) = n"
  by (simp add: chunks_def)

lemma nth_chunks: "i < n \<Longrightarrow> chunks n k xs ! i = take k (drop (i * k) xs)"
  by (simp add: chunks_def)

lemma chunks_one: "length xs \<le> k \<Longrightarrow> chunks (Suc 0) k xs = [xs]"
  by (simp add: chunks_def)

lemma length_chunk:
  assumes "i < n" "length xs = n * k"
  shows "length (take k (drop (i * k) xs)) = k"
proof -
  from assms(1) have "Suc i \<le> n" by simp
  then have "Suc i * k \<le> n * k" by (rule mult_le_mono1)
  then show ?thesis using assms(2) by simp
qed

lemma min_chunk: "i < n \<Longrightarrow> min (n * k - i * k) k = (k::nat)"
proof -
  assume "i < n"
  then have "Suc i \<le> n" by simp
  then have "Suc i * k \<le> n * k" by (rule mult_le_mono1)
  then show ?thesis by simp
qed

lemma length_concat_uniform:
  "\<forall>b \<in> set bs. length b = k \<Longrightarrow> length (concat bs) = length bs * k"
  by (induction bs) auto

lemma nth_chunk:
  assumes "j < k" "i < n" "length xs = n * k"
  shows "take k (drop (i * k) xs) ! j = xs ! (i * k + j)"
proof -
  from assms(2) have "Suc i \<le> n" by simp
  then have "Suc i * k \<le> n * k" by (rule mult_le_mono1)
  with assms have "i * k + j < length xs" by simp
  with assms(1) show ?thesis by simp
qed

lemma chunks_concat:
  assumes "\<forall>b \<in> set bs. length b = k"
  shows "chunks (length bs) k (concat bs) = bs"
  using assms
proof (induction bs)
  case Nil
  then show ?case by (simp add: chunks_def)
next
  case (Cons b bs)
  then have b: "length b = k" and IH: "chunks (length bs) k (concat bs) = bs" by auto
  have "map (\<lambda>i. take k (drop (i * k) (b @ concat bs))) [Suc 0..<Suc (length bs)]
      = map (\<lambda>i. take k (drop (i * k) (concat bs))) [0..<length bs]"
    using b by (simp add: map_Suc_upt [symmetric] del: upt_Suc)
  with IH b show ?case
    by (simp add: chunks_def upt_conv_Cons del: upt_Suc)
qed

lemma singleton_chunks:
  "length xs = n \<Longrightarrow> chunks n (Suc 0) xs = map (\<lambda>x. [x]) xs"
  by (auto simp: chunks_def intro!: nth_equalityI simp: take_Suc_conv_app_nth hd_drop_conv_nth take_Suc)

text \<open>Selecting along the leading axis with a 1-D mask.\<close>

lemma bool_index_axis0:
  assumes "shape a = n # rest" "shape m = [n]" "length (flat m) = n"
    "length (flat a) = n * prod_list rest"
  shows "bool_index_from 0 m a
     = Inr (NDArray (length (nonzero (flat m)) # rest)
         (concat (map (\<lambda>i. take (prod_list rest) (drop (i * prod_list rest) (flat a)))
                      (nonzero (flat m)))))"
proof -
  let ?k = "prod_list rest"
  have "select (chunks n ?k (flat a)) (flat m) = map ((!) (chunks n ?k (flat a))) (nonzero (flat m))"
    using assms(3) by (intro select_nth) simp
  also have "\<dots> = map (\<lambda>i. take ?k (drop (i * ?k) (flat a))) (nonzero (flat m))"
    using assms(3) by (intro map_cong refl nth_chunks) (auto dest: nonzero_less)
  finally have sel: "select (chunks n ?k (flat a)) (flat m)
      = map (\<lambda>i. take ?k (drop (i * ?k) (flat a))) (nonzero (flat m))" .
  have one: "chunks (Suc 0) (n * ?k) (flat a) = [flat a]"
    using assms(4) by (intro chunks_one) simp
  show ?thesis
    using assms(1,2) by (simp add: bool_index_from_def ndim_def count_true_nonzero one sel Let_def)
qed

text \<open>Selecting along the second axis of a 2-D array with a 1-D mask.\<close>

lemma bool_index_axis1:
  assumes "shape a = [r, n]" "shape m = [n]" "length (flat m) = n" "length (flat a) = r * n"
  shows "bool_index_from (Suc 0) m a
     = Inr (NDArray [r, length (nonzero (flat m))]
         (concat (map (\<lambda>blk. map ((!) blk) (nonzero (flat m))) (chunks r n (flat a)))))"
proof -
  have blk: "concat (select (chunks n (Suc 0) blk) (flat m)) = map ((!) blk) (nonzero (flat m))"
    if "length blk = n" for blk :: "'a list"
  proof -
    have "select (chunks n (Suc 0) blk) (flat m) = map ((!) (map (\<lambda>x. [x]) blk)) (nonzero (flat m))"
      using that assms(3) by (simp add: singleton_chunks select_nth)
    also have "\<dots> = map (\<lambda>j. [blk ! j]) (nonzero (flat m))"
      using that assms(3) by (intro map_cong refl) (auto dest: nonzero_less)
    finally show ?thesis by (simp add: concat_map_singleton)
  qed
  have eq: "map (\<lambda>blk. concat (select (chunks n (Suc 0) blk) (flat m))) (chunks r n (flat a))
      = map (\<lambda>blk. map ((!) blk) (nonzero (flat m))) (chunks r n (flat a))"
  proof (intro map_cong refl blk)
    fix b assume "b \<in> set (chunks r n (flat a))"
    then obtain i where "i < r" "b = take n (drop (i * n) (flat a))"
      by (auto simp: chunks_def)
    with assms(4) show "length b = n" by (simp add: min_chunk)
  qed
  show ?thesis
    using assms(1,2) by (simp add: bool_index_from_def ndim_def count_true_nonzero Let_def eq)
qed

text \<open>The outer-product selection of the 1-D branch.\<close>

lemma outer_product_cells:
  assumes "length F = n * m" "\<forall>i \<in> set ri. i < n" "\<forall>j \<in> set ci. j < m"
  shows "concat (map (\<lambda>blk. map ((!) blk) ci)
            (chunks (length ri) m (concat (map (\<lambda>i. take m (drop (i * m) F)) ri))))
       = concat (map (\<lambda>i. map (\<lambda>j. F ! (i * m + j)) ci) ri)"
proof -
  let ?bs = "map (\<lambda>i. take m (drop (i * m) F)) ri"
  have len: "\<forall>b \<in> set ?bs. length b = m"
    using assms(1,2) by (auto simp: min_chunk)
  have "chunks (length ri) m (concat ?bs) = ?bs"
    using chunks_concat [OF len] by simp
  moreover have "map (\<lambda>j. take m (drop (i * m) F) ! j) ci = map (\<lambda>j. F ! (i * m + j)) ci"
    if "i \<in> set ri" for i
    using that assms by (intro map_cong refl nth_chunk [where n = n]) auto
  ultimately show ?thesis
    by (simp add: comp_def cong: map_cong)
qed


lemma in_window_Fin: "in_window (Fin a) (Fin b) (Fin x) = (a \<le> x \<and> x \<le> b)"
  by (simp add: in_window_def f_ge_def)

text \<open>
  C7. Box cropping with 1-D coordinate vectors applies the row mask (latitude within its
  bounds) and the column mask (longitude within its bounds) independently, as an
  outer-product selection: the cropped grid holds the cells \<open>(i, j)\<close> of the selected
  rows \<open>i\<close> and selected columns \<open>j\<close>, and the cropped vectors hold the selected
  latitudes and longitudes. A 10 by 10 grid whose latitude bound [30, 40] meets 4 samples
  and whose longitude bound [-100, -90] meets 3 samples gives a 4 by 3 grid, a latitude
  vector of length 4 and a longitude vector of length 3.
\<close>

theorem box_crop_outer_product:
  fixes refl_data :: "'a ndarray" and lat lon :: "pyfloat ndarray"
    and lat_bounds lon_bounds :: bounds and n m :: nat
  assumes "shape refl_data = [n, m]" "shape lat = [n]" "shape lon = [m]"
    and "well_shaped refl_data" "well_shaped lat" "well_shaped lon"
  defines "rows \<equiv> filter (\<lambda>i. in_window (fst lat_bounds) (snd lat_bounds) (flat lat ! i)) [0..<n]"
    and "cols \<equiv> filter (\<lambda>j. in_window (fst lon_bounds) (snd lon_bounds) (flat lon ! j)) [0..<m]"
  shows "box_crop refl_data lat lon lat_bounds lon_bounds
     = Inr (NDArray [length rows, length cols]
              (concat (map (\<lambda>i. map (\<lambda>j. flat refl_data ! (i * m + j)) cols) rows)),
            NDArray [length rows] (map ((!) (flat lat)) rows),
            NDArray [length cols] (map ((!) (flat lon)) cols))"
proof -
  let ?lm = "nd_map (in_window (fst lat_bounds) (snd lat_bounds)) lat"
  let ?om = "nd_map (in_window (fst lon_bounds) (snd lon_bounds)) lon"
  from assms have len: "length (flat lat) = n" "length (flat lon) = m" "length (flat refl_data) = n * m"
    by (simp_all add: well_shaped_def)
  have nzl: "nonzero (flat ?lm) = rows" and nzo: "nonzero (flat ?om) = cols"
    using len by (simp_all add: nd_map_def nonzero_map rows_def cols_def)
  have shl: "shape ?lm = [n]" "length (flat ?lm) = n" and sho: "shape ?om = [m]" "length (flat ?om) = m"
    using assms(2,3) len by (simp_all add: nd_map_def)
  have r1: "bool_index_from 0 ?lm refl_data
     = Inr (NDArray [length rows, m] (concat (map (\<lambda>i. take m (drop (i * m) (flat refl_data))) rows)))"
    using bool_index_axis0 [OF assms(1) shl] len(3) by (simp add: nzl)
  let ?rows = "NDArray [length rows, m] (concat (map (\<lambda>i. take m (drop (i * m) (flat refl_data))) rows))"
  have lr: "length (flat ?rows) = length rows * m"
  proof -
    have "\<forall>b \<in> set (map (\<lambda>i. take m (drop (i * m) (flat refl_data))) rows). length b = m"
      using len(3) by (auto simp: rows_def min_chunk)
    from length_concat_uniform [OF this] show ?thesis by simp
  qed
  have r2: "bool_index_from (Suc 0) ?om ?rows
     = Inr (NDArray [length rows, length cols]
              (concat (map (\<lambda>i. map (\<lambda>j. flat refl_data ! (i * m + j)) cols) rows)))"
    using bool_index_axis1 [OF _ sho lr]
      outer_product_cells [OF len(3), of rows cols]
    by (simp add: nzo rows_def cols_def)
  have r3: "bool_index_from 0 ?lm lat = Inr (NDArray [length rows] (map ((!) (flat lat)) rows))"
  proof -
    have eq: "map (\<lambda>i. take (Suc 0) (drop i (flat lat))) rows = map (\<lambda>i. [flat lat ! i]) rows"
      using len(1) by (intro map_cong refl) (auto simp: rows_def take_Suc_conv_app_nth hd_drop_conv_nth take_Suc)
    show ?thesis
      using bool_index_axis0 [OF assms(2) shl] len(1) by (simp add: nzl eq concat_map_singleton)
  qed
  have r4: "bool_index_from 0 ?om lon = Inr (NDArray [length cols] (map ((!) (flat lon)) cols))"
  proof -
    have eq: "map (\<lambda>i. take (Suc 0) (drop i (flat lon))) cols = map (\<lambda>i. [flat lon ! i]) cols"
      using len(2) by (intro map_cong refl) (auto simp: cols_def take_Suc_conv_app_nth hd_drop_conv_nth take_Suc)
    show ?thesis
      using bool_index_axis0 [OF assms(3) sho] len(2) by (simp add: nzo eq concat_map_singleton)
  qed
  show ?thesis
    using assms(2) by (simp add: box_crop_def Let_def r1 r2 r3 r4)
qed

theorem box_crop_outer_product_witness:
  "box_crop grid10 lat10 lon10 (Fin 30, Fin 40) (Fin (-100), Fin (-90))
     = Inr (NDArray [4, 3] (map Fin [23, 24, 25, 33, 34, 35, 43, 44, 45, 53, 54, 55]),
            NDArray [4] (map Fin [31, 34, 37, 40]),
            NDArray [3] (map Fin [-98, -94, -90]))"
proof -
  have rows: "filter (\<lambda>i. in_window (fst (Fin 30, Fin 40)) (snd (Fin 30, Fin 40)) (flat lat10 ! i)) [0..<10]
      = [2, 3, 4, 5]"
    by code_simp
  have cols: "filter (\<lambda>j. in_window (fst (Fin (-100), Fin (-90))) (snd (Fin (-100), Fin (-90))) (flat lon10 ! j)) [0..<10]
      = [3, 4, 5]"
    by code_simp
  have "shape grid10 = [10, 10]" "shape lat10 = [10]" "shape lon10 = [10]"
    "well_shaped grid10" "well_shaped lat10" "well_shaped lon10"
    by (simp_all add: grid10_def lat10_def lon10_def well_shaped_def)
  from box_crop_outer_product [OF this, where lat_bounds = "(Fin 30, Fin 40)"
      and lon_bounds = "(Fin (-100), Fin (-90))"]
  show ?thesis
    unfolding rows cols by (simp add: grid10_def lat10_def lon10_def)
qed

subsection \<open>Shapes after cropping\<close>

lemma count_true_le: "count_true m \<le> length m"
  by (simp add: count_true_def)

lemma bool_index_shape:
  assumes "bool_index_from ax m a = Inr r"
  shows "shape r = take ax (shape a) @ [count_true (flat m)] @ drop (ax + ndim m) (shape a)"
    and "take (ndim m) (drop ax (shape a)) = shape m" and "ax + ndim m \<le> ndim a"
  using assms by (auto simp: bool_index_from_def Let_def split: if_splits)

lemma ix_index_shape:
  assumes "ix_index rm cm a = Inr r"
  shows "shape r = length (nonzero rm) # length (nonzero cm) # drop 2 (shape a)" and "2 \<le> ndim a"
  using assms by (auto simp: ix_index_def Let_def ndim_def split: list.splits if_splits)

lemma box_crop_1d_shapes:
  assumes "ndim lat = 1" "ndim lon = 1" "ndim refl_data = 2" "well_shaped lat" "well_shaped lon"
    and ok: "box_crop refl_data lat lon lab lob = Inr (rc, lac, loc)"
  shows "shape rc = shape lac @ shape loc" "ndim lac = 1" "ndim loc = 1"
    "shape rc ! 0 \<le> shape refl_data ! 0" "shape rc ! 1 \<le> shape refl_data ! 1"
    "shape lac ! 0 \<le> shape lat ! 0" "shape loc ! 0 \<le> shape lon ! 0"
proof -
  let ?lm = "nd_map (in_window (fst lab) (snd lab)) lat"
  let ?om = "nd_map (in_window (fst lob) (snd lob)) lon"
  from assms(1) obtain n where n: "shape lat = [n]"
    by (cases "shape lat") (auto simp: ndim_def)
  from assms(2) obtain m where m: "shape lon = [m]"
    by (cases "shape lon") (auto simp: ndim_def)
  from assms(3) obtain n' m' where r: "shape refl_data = [n', m']"
    by (cases "shape refl_data"; cases "tl (shape refl_data)") (auto simp: ndim_def)
  have lm: "shape ?lm = [n]" "ndim ?lm = 1" "length (flat ?lm) = n"
    and om: "shape ?om = [m]" "ndim ?om = 1" "length (flat ?om) = m"
    using n m assms(4,5) by (simp_all add: nd_map_def ndim_def well_shaped_def)
  from ok assms(1) obtain rows where
    a: "bool_index_from 0 ?lm refl_data = Inr rows"
    and b: "bool_index_from 1 ?om rows = Inr rc"
    and c: "bool_index_from 0 ?lm lat = Inr lac"
    and d: "bool_index_from 0 ?om lon = Inr loc"
    by (auto simp: box_crop_def Let_def ndim_def elim!: try_bindE)
  from bool_index_shape [OF a] lm r have rows: "shape rows = [count_true (flat ?lm), m']" "n' = n"
    by simp_all
  from bool_index_shape [OF b] om rows have rc: "shape rc = [count_true (flat ?lm), count_true (flat ?om)]"
    "m' = m"
    by simp_all
  from bool_index_shape [OF c] lm n have lac: "shape lac = [count_true (flat ?lm)]" by simp
  from bool_index_shape [OF d] om m have loc: "shape loc = [count_true (flat ?om)]" by simp
  have le: "count_true (flat ?lm) \<le> n" "count_true (flat ?om) \<le> m"
    using count_true_le [of "flat ?lm"] count_true_le [of "flat ?om"] lm om by simp_all
  show "shape rc = shape lac @ shape loc" "ndim lac = 1" "ndim loc = 1"
    "shape rc ! 0 \<le> shape refl_data ! 0" "shape rc ! 1 \<le> shape refl_data ! 1"
    "shape lac ! 0 \<le> shape lat ! 0" "shape loc ! 0 \<le> shape lon ! 0"
    using rc lac loc le r rows n m by (simp_all add: ndim_def)
qed

lemma box_crop_2d_shapes:
  assumes "ndim lat = 2" "ndim refl_data = 2" "well_shaped lat"
    and ok: "box_crop refl_data lat lon lab lob = Inr (rc, lac, loc)"
  shows "shape rc = shape lac" "shape loc = shape lac" "ndim rc = 1"
    "nd_size rc \<le> nd_size refl_data" "shape lon = shape lat" "shape refl_data = shape lat"
proof -
  let ?lm = "nd_map (in_window (fst lab) (snd lab)) lat"
  let ?om = "nd_map (in_window (fst lob) (snd lob)) lon"
  from ok assms(1) obtain mask where
    a: "mask_and ?lm ?om = Inr mask"
    and b: "bool_index_from 0 mask refl_data = Inr rc"
    and c: "bool_index_from 0 mask lat = Inr lac"
    and d: "bool_index_from 0 mask lon = Inr loc"
    by (auto simp: box_crop_def Let_def ndim_def elim!: try_bindE)
  from a have sh: "shape lon = shape lat" and mask: "shape mask = shape lat"
    "length (flat mask) \<le> length (flat lat)"
    by (auto simp: mask_and_def nd_map_def split: if_splits)
  have nm: "ndim mask = 2" using mask assms(1) by (simp add: ndim_def)
  from bool_index_shape [OF b] nm assms(2) mask
  have rc: "shape rc = [count_true (flat mask)]" and r: "shape refl_data = shape lat"
    by (simp_all add: ndim_def)
  from bool_index_shape [OF c] nm assms(1) have lac: "shape lac = [count_true (flat mask)]"
    by (simp add: ndim_def)
  from bool_index_shape [OF d] nm assms(1) sh have loc: "shape loc = [count_true (flat mask)]"
    by (simp add: ndim_def)
  have "count_true (flat mask) \<le> length (flat lat)"
    using count_true_le [of "flat mask"] mask(2) by simp
  also have "\<dots> = nd_size refl_data"
    using assms(3) r by (simp add: well_shaped_def nd_size_def)
  finally show "nd_size rc \<le> nd_size refl_data" using rc by (simp add: nd_size_def)
  show "shape rc = shape lac" "shape loc = shape lac" "ndim rc = 1" "shape lon = shape lat"
    "shape refl_data = shape lat"
    using rc lac loc sh r by (simp_all add: ndim_def)
qed

lemma first_column_length: "first_column a = Inr col \<Longrightarrow> length col = shape a ! 0"
  by (auto simp: first_column_def split: list.splits if_splits)

lemma first_row_length: "first_row a = Inr row \<Longrightarrow> length row \<le> shape a ! 1 \<and> length (shape a) = 2"
  by (auto simp: first_row_def split: list.splits if_splits)

lemma crop_region_shapes:
  assumes "shape data = shape lats" "shape lons = shape lats"
    and ok: "crop_region data lats lons center_lat center_lon radius_deg = Inr (d, la, lo)"
  shows "shape d = shape la" "shape lo = shape la" "ndim d = ndim data"
    "\<forall>ax < ndim data. shape d ! ax \<le> shape data ! ax"
proof -
  define lat_min lat_max lon_min lon_max where
    "lat_min = f_sub center_lat radius_deg" and "lat_max = f_add center_lat radius_deg"
    and "lon_min = f_sub (f_mod360 center_lon) radius_deg"
    and "lon_max = f_add (f_mod360 center_lon) radius_deg"
  show "shape d = shape la" "shape lo = shape la" "ndim d = ndim data"
    "\<forall>ax < ndim data. shape d ! ax \<le> shape data ! ax"
  proof (atomize (full), cases "ndim lats = 2")
    case False
    with ok assms show "(shape d = shape la \<and> shape lo = shape la) \<and> ndim d = ndim data \<and>
        (\<forall>ax < ndim data. shape d ! ax \<le> shape data ! ax)"
      by (auto simp: crop_region_def Let_def nd_map_def ndim_def elim!: try_bindE)
  next
    case True
    with ok obtain lat_col lon_row d0 la0 lo0 where
      col: "first_column lats = Inr lat_col" and row: "first_row lons = Inr lon_row"
      and a: "ix_index (map (in_window lat_min lat_max) lat_col) (map (in_window lon_min lon_max) lon_row) data = Inr d0"
      and b: "ix_index (map (in_window lat_min lat_max) lat_col) (map (in_window lon_min lon_max) lon_row) lats = Inr la0"
      and c: "ix_index (map (in_window lat_min lat_max) lat_col) (map (in_window lon_min lon_max) lon_row) lons = Inr lo0"
      and res: "d = d0" "la = la0" "lo = nd_map to_standard_lon lo0"
      unfolding crop_region_def Let_def lat_min_def lat_max_def lon_min_def lon_max_def
      by (auto elim!: try_bindE)
    let ?ri = "nonzero (map (in_window lat_min lat_max) lat_col)"
    let ?ci = "nonzero (map (in_window lon_min lon_max) lon_row)"
    from True obtain n m where s: "shape lats = [n, m]"
      by (cases "shape lats"; cases "tl (shape lats)") (auto simp: ndim_def)
    have sh: "shape d0 = [length ?ri, length ?ci]" "shape la0 = [length ?ri, length ?ci]"
      "shape lo0 = [length ?ri, length ?ci]"
      using ix_index_shape(1) [OF a] ix_index_shape(1) [OF b] ix_index_shape(1) [OF c] s assms
      by simp_all
    have "length ?ri \<le> n" "length ?ci \<le> m"
      using length_nonzero_le [of "map (in_window lat_min lat_max) lat_col"]
        length_nonzero_le [of "map (in_window lon_min lon_max) lon_row"]
        first_column_length [OF col] first_row_length [OF row] s assms
      by simp_all
    with sh res s assms show "(shape d = shape la \<and> shape lo = shape la) \<and> ndim d = ndim data \<and>
        (\<forall>ax < ndim data. shape d ! ax \<le> shape data ! ax)"
      by (auto simp: nd_map_def ndim_def less_Suc_eq numeral_2_eq_2)
  qed
qed

text \<open>What the crops keep. With 1-D coordinate vectors the cropped grid has the extent of
  the cropped latitude vector by that of the cropped longitude vector, and no extent
  exceeds the input's. With 2-D coordinate grids the three results of the box crop are 1-D
  arrays of one common length, at most the number of cells of the input grid.
  \<^verbatim>\<open>crop_region\<close>, given three arrays of one shape, returns three arrays of one shape
  with as many axes as the input and no extent above the input's.\<close>

lemma crop_shapes:
  "(ndim lat = 1 \<and> ndim lon = 1 \<and> ndim refl_data = 2 \<and> well_shaped lat \<and> well_shaped lon
      \<and> box_crop refl_data lat lon lab lob = Inr (rc, lac, loc) \<longrightarrow>
        shape rc = shape lac @ shape loc \<and> ndim lac = 1 \<and> ndim loc = 1
        \<and> shape rc ! 0 \<le> shape refl_data ! 0 \<and> shape rc ! 1 \<le> shape refl_data ! 1
        \<and> shape lac ! 0 \<le> shape lat ! 0 \<and> shape loc ! 0 \<le> shape lon ! 0)
   \<and> (ndim lat = 2 \<and> ndim refl_data = 2 \<and> well_shaped lat
      \<and> box_crop refl_data lat lon lab lob = Inr (rc, lac, loc) \<longrightarrow>
        shape rc = shape lac \<and> shape loc = shape lac \<and> ndim rc = 1
        \<and> nd_size rc \<le> nd_size refl_data)
   \<and> (shape data = shape lats \<and> shape lons = shape lats
      \<and> crop_region data lats lons center_lat center_lon radius_deg = Inr (d, la, lo) \<longrightarrow>
        shape d = shape la \<and> shape lo = shape la \<and> ndim d = ndim data
        \<and> (\<forall>ax < ndim data. shape d ! ax \<le> shape data ! ax))"
proof -
  have one: "ndim lat = 1 \<and> ndim lon = 1 \<and> ndim refl_data = 2 \<and> well_shaped lat \<and> well_shaped lon
      \<and> box_crop refl_data lat lon lab lob = Inr (rc, lac, loc) \<longrightarrow>
        shape rc = shape lac @ shape loc \<and> ndim lac = 1 \<and> ndim loc = 1
        \<and> shape rc ! 0 \<le> shape refl_data ! 0 \<and> shape rc ! 1 \<le> shape refl_data ! 1
        \<and> shape lac ! 0 \<le> shape lat ! 0 \<and> shape loc ! 0 \<le> shape lon ! 0"
  proof
    assume h: "ndim lat = 1 \<and> ndim lon = 1 \<and> ndim refl_data = 2 \<and> well_shaped lat \<and> well_shaped lon
      \<and> box_crop refl_data lat lon lab lob = Inr (rc, lac, loc)"
    then have "ndim lat = 1" "ndim lon = 1" "ndim refl_data = 2" "well_shaped lat" "well_shaped lon"
      "box_crop refl_data lat lon lab lob = Inr (rc, lac, loc)"
      by simp_all
    from box_crop_1d_shapes [OF this]
    show "shape rc = shape lac @ shape loc \<and> ndim lac = 1 \<and> ndim loc = 1
        \<and> shape rc ! 0 \<le> shape refl_data ! 0 \<and> shape rc ! 1 \<le> shape refl_data ! 1
        \<and> shape lac ! 0 \<le> shape lat ! 0 \<and> shape loc ! 0 \<le> shape lon ! 0"
      by (intro conjI)
  qed
  have two: "ndim lat = 2 \<and> ndim refl_data = 2 \<and> well_shaped lat
      \<and> box_crop refl_data lat lon lab lob = Inr (rc, lac, loc) \<longrightarrow>
        shape rc = shape lac \<and> shape loc = shape lac \<and> ndim rc = 1
        \<and> nd_size rc \<le> nd_size refl_data"
  proof
    assume h: "ndim lat = 2 \<and> ndim refl_data = 2 \<and> well_shaped lat
      \<and> box_crop refl_data lat lon lab lob = Inr (rc, lac, loc)"
    then have "ndim lat = 2" "ndim refl_data = 2" "well_shaped lat"
      "box_crop refl_data lat lon lab lob = Inr (rc, lac, loc)"
      by simp_all
    from box_crop_2d_shapes(1-4) [OF this]
    show "shape rc = shape lac \<and> shape loc = shape lac \<and> ndim rc = 1
        \<and> nd_size rc \<le> nd_size refl_data"
      by (intro conjI)
  qed
  have three: "shape data = shape lats \<and> shape lons = shape lats
      \<and> crop_region data lats lons center_lat center_lon radius_deg = Inr (d, la, lo) \<longrightarrow>
        shape d = shape la \<and> shape lo = shape la \<and> ndim d = ndim data
        \<and> (\<forall>ax < ndim data. shape d ! ax \<le> shape data ! ax)"
  proof
    assume h: "shape data = shape lats \<and> shape lons = shape lats
      \<and> crop_region data lats lons center_lat center_lon radius_deg = Inr (d, la, lo)"
    then have "shape data = shape lats" "shape lons = shape lats"
      "crop_region data lats lons center_lat center_lon radius_deg = Inr (d, la, lo)"
      by simp_all
    from crop_region_shapes [OF this]
    show "shape d = shape la \<and> shape lo = shape la \<and> ndim d = ndim data
        \<and> (\<forall>ax < ndim data. shape d ! ax \<le> shape data ! ax)"
      by (intro conjI)
  qed
  from one two three show ?thesis by (intro conjI)
qed

lemma crop_shapes_example:
  "box_crop grid10 lat10 lon10 (Fin 30, Fin 40) (Fin (-100), Fin (-90))
     = Inr (NDArray [4, 3] (map Fin [23, 24, 25, 33, 34, 35, 43, 44, 45, 53, 54, 55]),
            NDArray [4] (map Fin [31, 34, 37, 40]), NDArray [3] (map Fin [-98, -94, -90]))
   \<and> shape grid10 = [10, 10]
   \<and> box_crop sample_grid sample_lats sample_lons (Fin 37.5, Fin 40) (Fin 235, Fin 260)
     = Inr (NDArray [2] [Fin 12.5, Fin (-990)], NDArray [2] [Fin 38, Fin 38],
            NDArray [2] [Fin 240, Fin 250])
   \<and> nd_size (NDArray [2] [Fin 12.5, Fin (-990)]) \<le> nd_size sample_grid
   \<and> crop_region sample_grid sample_lats sample_lons (Fin 37.403147) (Fin (-121.969814)) (Fin 3)
     = Inr (NDArray [2, 1] [Fin 12.5, NaN], NDArray [2, 1] [Fin 38, Fin 37],
            NDArray [2, 1] [Fin (-120), Fin (-120)])
   \<and> shape sample_grid = [2, 3]"
proof -
  let ?rc = "NDArray [4, 3] (map Fin [23, 24, 25, 33, 34, 35, 43, 44, 45, 53, 54, 55])"
  let ?lac = "NDArray [4] (map Fin [31, 34, 37, 40])"
  let ?loc = "NDArray [3] (map Fin [-98, -94, -90])"
  have a: "box_crop grid10 lat10 lon10 (Fin 30, Fin 40) (Fin (-100), Fin (-90)) = Inr (?rc, ?lac, ?loc)"
    by code_simp
  have b: "box_crop sample_grid sample_lats sample_lons (Fin 37.5, Fin 40) (Fin 235, Fin 260)
     = Inr (NDArray [2] [Fin 12.5, Fin (-990)], NDArray [2] [Fin 38, Fin 38],
            NDArray [2] [Fin 240, Fin 250])"
    by code_simp
  have c: "crop_region sample_grid sample_lats sample_lons (Fin 37.403147) (Fin (-121.969814)) (Fin 3)
     = Inr (NDArray [2, 1] [Fin 12.5, NaN], NDArray [2, 1] [Fin 38, Fin 37],
            NDArray [2, 1] [Fin (-120), Fin (-120)])"
    by code_simp
  have h: "ndim lat10 = 1" "ndim lon10 = 1" "ndim grid10 = 2" "well_shaped lat10" "well_shaped lon10"
    "ndim sample_lats = 2" "ndim sample_grid = 2" "well_shaped sample_lats"
    "shape sample_grid = shape sample_lats" "shape sample_lons = shape sample_lats"
    by (simp_all add: lat10_def lon10_def grid10_def sample_grid_def sample_lats_def sample_lons_def
        ndim_def well_shaped_def)
  have "shape ?rc = shape ?lac @ shape ?loc \<and> ndim ?lac = 1 \<and> ndim ?loc = 1
        \<and> shape ?rc ! 0 \<le> shape grid10 ! 0 \<and> shape ?rc ! 1 \<le> shape grid10 ! 1
        \<and> shape ?lac ! 0 \<le> shape lat10 ! 0 \<and> shape ?loc ! 0 \<le> shape lon10 ! 0"
    by (rule crop_shapes [where lab = "(Fin 30, Fin 40)" and lob = "(Fin (-100), Fin (-90))",
          THEN conjunct1, rule_format]) (insert a h, simp)
  moreover have "shape (NDArray [2] [Fin 12.5, Fin (-990)]) = shape (NDArray [2] [Fin 38, Fin 38])
        \<and> shape (NDArray [2] [Fin 240, Fin 250]) = shape (NDArray [2] [Fin 38, Fin 38])
        \<and> ndim (NDArray [2] [Fin 12.5, Fin (-990)]) = 1
        \<and> nd_size (NDArray [2] [Fin 12.5, Fin (-990)]) \<le> nd_size sample_grid"
    by (rule crop_shapes [where lat = sample_lats and lon = sample_lons
          and lab = "(Fin 37.5, Fin 40)" and lob = "(Fin 235, Fin 260)",
          THEN conjunct2, THEN conjunct1, rule_format]) (insert b h, simp)
  moreover have "shape (NDArray [2, 1] [Fin 12.5, NaN]) = shape (NDArray [2, 1] [Fin 38, Fin 37])
        \<and> shape (NDArray [2, 1] [Fin (-120), Fin (-120)]) = shape (NDArray [2, 1] [Fin 38, Fin 37])
        \<and> ndim (NDArray [2, 1] [Fin 12.5, NaN]) = ndim sample_grid
        \<and> (\<forall>ax < ndim sample_grid. shape (NDArray [2, 1] [Fin 12.5, NaN]) ! ax \<le> shape sample_grid ! ax)"
    by (rule crop_shapes [where lats = sample_lats and lons = sample_lons
          and center_lat = "Fin 37.403147" and center_lon = "Fin (-121.969814)"
          and radius_deg = "Fin 3", THEN conjunct2, THEN conjunct2, rule_format]) (insert c h, simp)
  moreover have "shape grid10 = [10, 10]" "shape sample_grid = [2, 3]"
    by (simp_all add: grid10_def sample_grid_def)
  ultimately show ?thesis using a b c by simp
qed

text \<open>
  C8. After every crop the reflectivity array and the coordinate arrays are to have
  matching shapes, and no extent of a cropped array is to exceed the input's. The branch
  of the box crop for 1-D coordinate vectors and \<^verbatim>\<open>crop_region\<close> keep a 2-D sub-grid.
  The branch for 2-D coordinate grids (lines 144-148) selects with one combined mask,
  which flattens the selection: a 2 by 3 grid selected whole comes out as a 1-D array of
  length 6, longer than either extent of the input, and this 1-D array is what the
  shared \<^verbatim>\<open>pcolormesh\<close> call of line 150 is given.
\<close>

theorem box_crop_2d_flattens:
  "ndim sample_lats = 2 \<and> shape sample_grid = [2, 3]
   \<and> box_crop sample_grid sample_lats sample_lons (Fin 0, Fin 90) (Fin 0, Fin 360)
     = Inr (NDArray [6] (flat sample_grid), NDArray [6] (flat sample_lats),
            NDArray [6] (flat sample_lons))
   \<and> \<not> shape (NDArray [6] (flat sample_grid)) ! 0 \<le> shape sample_grid ! 0
   \<and> \<not> shape (NDArray [6] (flat sample_grid)) ! 0 \<le> shape sample_grid ! 1
   \<and> plot_reflectivity (sample_env False) (masked_less (masked_invalid sample_grid) (Fin (-30)))
       sample_lats sample_lons (Some (Fin 0, Fin 90)) (Some (Fin 0, Fin 360))
     = Inr [Pcolormesh (NDArray [6] (flat sample_lons)) (NDArray [6] (flat sample_lats))
              (NDArray [6] (flat (masked_less (masked_invalid sample_grid) (Fin (-30))))),
            SetXlim (Fin 0, Fin 360), SetYlim (Fin 0, Fin 90)]"
proof -
  have "box_crop sample_grid sample_lats sample_lons (Fin 0, Fin 90) (Fin 0, Fin 360)
     = Inr (NDArray [6] (flat sample_grid), NDArray [6] (flat sample_lats),
            NDArray [6] (flat sample_lons))"
    by code_simp
  moreover have "plot_reflectivity (sample_env False) (masked_less (masked_invalid sample_grid) (Fin (-30)))
       sample_lats sample_lons (Some (Fin 0, Fin 90)) (Some (Fin 0, Fin 360))
     = Inr [Pcolormesh (NDArray [6] (flat sample_lons)) (NDArray [6] (flat sample_lats))
              (NDArray [6] (flat (masked_less (masked_invalid sample_grid) (Fin (-30))))),
            SetXlim (Fin 0, Fin 360), SetYlim (Fin 0, Fin 90)]"
    by code_simp
  ultimately show ?thesis by (simp add: sample_grid_def sample_lats_def ndim_def)
qed

subsection \<open>Regional crop in the 0-360 convention\<close>










subsection \<open>A crop region outside the grid\<close>














subsection \<open>The temporary file\<close>

lemma decompress_creates:
  "decompress env w input_path = (w1, Inr (Some t, g)) \<Longrightarrow> t \<in> files w1 \<and> t \<noteq> [] \<and> g = t"
  by (auto simp: decompress_def Let_def split: if_splits)

lemma save_figure_keeps:
  "save_figure env w fig output_path = (w', r) \<Longrightarrow> files w \<subseteq> files w'"
  by (auto simp: save_figure_def split: sum.splits)

lemma process_try_after_decompress:
  assumes "decompress env w input_path = (w1, Inr (temp_file, grib_file))"
  shows "process_try env w input_path output_path lat_bounds lon_bounds
     = (case print_out env (Opening grib_file) of
          Inl e \<Rightarrow> (w1, Inl e)
        | Inr _ \<Rightarrow>
     (case prepare env grib_file of
          Inl e \<Rightarrow> (w1, Inl e)
        | Inr (refl_data, lat, lon) \<Rightarrow>
            (case plot_reflectivity env refl_data lat lon lat_bounds lon_bounds of
               Inl e \<Rightarrow> (w1, Inl e)
             | Inr fig \<Rightarrow>
                 (case save_figure env w1 fig output_path of
                    (w2, Inl e) \<Rightarrow> (w2, Inl e)
                  | (w2, Inr _) \<Rightarrow>
                      (case print_out env (RadarSaved output_path) of
                         Inl e \<Rightarrow> (w2, Inl e)
                       | Inr _ \<Rightarrow> (cleanup w2 temp_file, Inr True))))))"
  by (simp add: process_try_def assms)

lemma failure_keeps_temp_file:
  assumes d: "decompress env w input_path = (w1, Inr (Some t, g))"
    and f: "process_try env w input_path output_path lat_bounds lon_bounds = (w', Inl e)"
  shows "t \<in> files w'"
proof -
  from decompress_creates [OF d] have t: "t \<in> files w1" by simp
  note pt = f [unfolded process_try_after_decompress [OF d]]
  show ?thesis
  proof (cases "print_out env (Opening g)")
    case (Inl e')
    with pt t show ?thesis by simp
  next
    case opened: (Inr u)
    show ?thesis
    proof (cases "prepare env g")
      case (Inl e')
      with pt opened t show ?thesis by simp
    next
      case prepared: (Inr p)
      obtain refl_data lat lon where p: "p = (refl_data, lat, lon)" by (cases p) auto
      show ?thesis
      proof (cases "plot_reflectivity env refl_data lat lon lat_bounds lon_bounds")
        case (Inl e')
        with pt opened prepared p t show ?thesis by simp
      next
        case fig: (Inr fig)
        obtain w2 r where sf: "save_figure env w1 fig output_path = (w2, r)"
          by (cases "save_figure env w1 fig output_path") auto
        from save_figure_keeps [OF sf] t have t2: "t \<in> files w2" by auto
        show ?thesis
        proof (cases r)
          case (Inl e')
          with pt opened prepared p fig sf t2 show ?thesis by simp
        next
          case saved: (Inr v)
          with pt opened prepared p fig sf t2 show ?thesis
            by (cases "print_out env (RadarSaved output_path)") simp_all
        qed
      qed
    qed
  qed
qed

lemma success_removes_temp_file:
  assumes d: "decompress env w input_path = (w1, Inr (Some t, g))"
    and f: "process_try env w input_path output_path lat_bounds lon_bounds = (w', Inr b)"
  shows "t \<notin> files w'"
proof -
  from decompress_creates [OF d] have t: "t \<noteq> []" by simp
  note pt = f [unfolded process_try_after_decompress [OF d]]
  show ?thesis
  proof (cases "print_out env (Opening g)")
    case (Inl e')
    with pt show ?thesis by simp
  next
    case opened: (Inr u)
    show ?thesis
    proof (cases "prepare env g")
      case (Inl e')
      with pt opened show ?thesis by simp
    next
      case prepared: (Inr p)
      obtain refl_data lat lon where p: "p = (refl_data, lat, lon)" by (cases p) auto
      show ?thesis
      proof (cases "plot_reflectivity env refl_data lat lon lat_bounds lon_bounds")
        case (Inl e')
        with pt opened prepared p show ?thesis by simp
      next
        case fig: (Inr fig)
        obtain w2 r where sf: "save_figure env w1 fig output_path = (w2, r)"
          by (cases "save_figure env w1 fig output_path") auto
        show ?thesis
        proof (cases r)
          case (Inl e')
          with pt opened prepared p fig sf show ?thesis by simp
        next
          case saved: (Inr v)
          show ?thesis
          proof (cases "print_out env (RadarSaved output_path)")
            case (Inl e')
            with pt opened prepared p fig sf saved show ?thesis by simp
          next
            case (Inr v')
            with pt opened prepared p fig sf saved have "w' = cleanup w2 (Some t)" by simp
            with t show ?thesis by (simp add: cleanup_def)
          qed
        qed
      qed
    qed
  qed
qed

text \<open>
  C2. On a gzip-compressed input the decompressed sibling file is to be gone when
  \<^verbatim>\<open>process_grib2_file\<close> returns. The code removes it at the end of the \<^verbatim>\<open>try\<close> body
  only: when the decoder rejects the decompressed file, the handler returns \<^verbatim>\<open>False\<close>
  and the sibling file \<^verbatim>\<open>radar.grib2\<close> is still there.
\<close>

theorem temp_file_left_behind:
  "process_grib2_file undecodable_env (empty_world\<lparr>files := {''radar.grib2.gz''}\<rparr>)
      ''radar.grib2.gz'' ''out.png'' None None
   = (empty_world\<lparr>files := {''radar.grib2'', ''radar.grib2.gz''}\<rparr>, Inr False)"
proof -
  have d: "decompress undecodable_env (empty_world\<lparr>files := {''radar.grib2.gz''}\<rparr>) ''radar.grib2.gz''
      = (empty_world\<lparr>files := {''radar.grib2'', ''radar.grib2.gz''}\<rparr>, Inr (Some ''radar.grib2'', ''radar.grib2''))"
    by (simp add: decompress_def endswith_def undecodable_env_def sample_env_def empty_world_def Let_def
        remove_gz.simps)
  have p: "prepare undecodable_env ''radar.grib2'' = Inl (LibraryError ''not a GRIB file'')"
    by (simp add: prepare_def open_with_fallback_def undecodable_env_def sample_env_def)
  have o: "print_out undecodable_env m = Inr ()" for m
    by (simp add: undecodable_env_def sample_env_def)
  have x: "print_exc undecodable_env e = Inr ()" for e
    by (simp add: undecodable_env_def sample_env_def)
  show ?thesis
    by (simp add: process_grib2_file_def except_handler_def process_try_def d p o x)
qed

end
